theory Spec2Isabelle
  imports Main
begin

section \<open>The JDL object model\<close>

text \<open>
  The validator of \<^verbatim>\<open>jdl/validators/jdl-without-application-validator.ts\<close> inspects a
  parsed JDL object and never changes it. The nodes carry the attributes the validator and
  the test-suite read.
\<close>

record jdl_validation =
  validation_name :: string
  validation_value :: "string option"

record jdl_field =
  field_name :: string
  field_type :: string
  validations :: "jdl_validation list"

text \<open>
  \<open>entity_fields\<close> is the object \<^verbatim>\<open>jdlEntity.fields\<close> in the order of \<^verbatim>\<open>Object.keys\<close>: the key
  and the field stored under it.
\<close>

record jdl_entity =
  entity_name :: string
  tableName :: string
  entity_fields :: "(string \<times> jdl_field) list"

record jdl_relationship =
  rel_from :: string
  rel_to :: string
  rel_type :: string
  injectedFieldInFrom :: "string option"
  injectedFieldInTo :: "string option"

record jdl_enum =
  enum_name :: string
  enum_values :: "string list"

record jdl_deployment =
  deploymentType :: string

datatype option_type = UNARY | BINARY

record jdl_option =
  getType :: option_type
  option_name :: string
  option_value :: "string option"
  entityNames :: "string list"
  excludedNames :: "string list"

record jdl_object =
  entities :: "jdl_entity list"
  relationships :: "jdl_relationship list"
  enums :: "jdl_enum list"
  deployments :: "jdl_deployment list"
  options :: "jdl_option list"

text \<open>
  Modelled from the spec: the model container (\<^verbatim>\<open>models/jdl-object.js\<close> is not among the
  sources). It holds the nodes in insertion order and offers counts, iteration and
  existence queries by name.
\<close>

definition getEntityQuantity :: "jdl_object \<Rightarrow> nat" where
  "getEntityQuantity jdlObject = length (entities jdlObject)"

definition getRelationshipQuantity :: "jdl_object \<Rightarrow> nat" where
  "getRelationshipQuantity jdlObject = length (relationships jdlObject)"

definition getEnumQuantity :: "jdl_object \<Rightarrow> nat" where
  "getEnumQuantity jdlObject = length (enums jdlObject)"

definition getDeploymentQuantity :: "jdl_object \<Rightarrow> nat" where
  "getDeploymentQuantity jdlObject = length (deployments jdlObject)"

definition getOptionQuantity :: "jdl_object \<Rightarrow> nat" where
  "getOptionQuantity jdlObject = length (options jdlObject)"

definition getEntity :: "jdl_object \<Rightarrow> string \<Rightarrow> jdl_entity option" where
  "getEntity jdlObject entityName = find (\<lambda>e. entity_name e = entityName) (entities jdlObject)"

definition hasEnum :: "jdl_object \<Rightarrow> string \<Rightarrow> bool" where
  "hasEnum jdlObject enumName = (find (\<lambda>e. enum_name e = enumName) (enums jdlObject) \<noteq> None)"

definition getOptionsForName :: "jdl_object \<Rightarrow> string \<Rightarrow> jdl_option list" where
  "getOptionsForName jdlObject optionName = filter (\<lambda>opt. option_name opt = optionName) (options jdlObject)"

text \<open>
  The settings object: every property may be missing (\<open>None\<close>), as in the default \<^verbatim>\<open>{}\<close>.
\<close>

record application_settings =
  baseName :: "string option"
  applicationType :: "string option"
  databaseType :: "string option"
  skippedUserManagement :: "bool option"
  blueprints :: "string list option"

section \<open>Warnings and thrown errors\<close>

text \<open>
  A check calls \<^verbatim>\<open>logger.warn\<close> some number of times and then returns or throws.
  Its outcome is the list of warnings in the order of the calls, and the message of the
  thrown \<^verbatim>\<open>Error\<close>, if any.
\<close>

datatype outcome = Outcome (warned: "string list") (thrown: "string option")

definition ok :: outcome where
  "ok = Outcome [] None"

definition throw :: "string \<Rightarrow> outcome" where
  "throw message = Outcome [] (Some message)"

definition warn :: "string \<Rightarrow> outcome" where
  "warn message = Outcome [message] None"

definition throwIf :: "bool \<Rightarrow> string \<Rightarrow> outcome" where
  "throwIf b message = (if b then throw message else ok)"

definition warnIf :: "bool \<Rightarrow> string \<Rightarrow> outcome" where
  "warnIf b message = (if b then warn message else ok)"

text \<open>A shape validator returns the message it throws, or \<open>None\<close>.\<close>

definition validate :: "string option \<Rightarrow> outcome" where
  "validate r = (case r of None \<Rightarrow> ok | Some message \<Rightarrow> throw message)"

text \<open>Statements in sequence: what follows a throw does not run.\<close>

definition andThen :: "outcome \<Rightarrow> outcome \<Rightarrow> outcome" where
  "andThen a b = (case thrown a of
      Some message \<Rightarrow> a
    | None \<Rightarrow> Outcome (warned a @ warned b) (thrown b))"

fun seq :: "outcome list \<Rightarrow> outcome" where
  "seq [] = ok"
| "seq (c # cs) = andThen c (seq cs)"

definition forEach :: "('a \<Rightarrow> outcome) \<Rightarrow> 'a list \<Rightarrow> outcome" where
  "forEach f xs = seq (map f xs)"

section \<open>What the validator imports\<close>

text \<open>
  The constants and tables of \<^verbatim>\<open>../jhipster/index.mjs\<close> are not among the sources; the
  validator is verified for every value of them.
\<close>

record jhipster =
  SQL :: string
  CASSANDRA :: string
  GATEWAY :: string
  SKIP_USER_MANAGEMENT :: string
  PAGINATION :: string
  isReservedFieldName :: "string \<Rightarrow> bool"
  isReservedTableName :: "string \<Rightarrow> string option \<Rightarrow> bool"
  isReservedPaginationWords :: "string \<Rightarrow> bool"
  getIsType :: "string option \<Rightarrow> string \<Rightarrow> bool"
  hasValidation :: "string \<Rightarrow> string \<Rightarrow> bool \<Rightarrow> bool"

text \<open>
  The shape validators (\<^verbatim>\<open>entity-validator.js\<close>, \<^verbatim>\<open>field-validator.js\<close>, ...) are not
  among the sources either. Each takes a node and returns the message it throws, if any;
  the relationship validator also receives the flag of its options bag.
\<close>

record validators =
  entityValidator :: "jdl_entity \<Rightarrow> string option"
  fieldValidator :: "jdl_field \<Rightarrow> string option"
  validationValidator :: "jdl_validation \<Rightarrow> string option"
  relationshipValidator :: "jdl_relationship \<Rightarrow> bool \<Rightarrow> string option"
  enumValidator :: "jdl_enum \<Rightarrow> string option"
  deploymentValidator :: "jdl_deployment \<Rightarrow> string option"
  unaryOptionValidator :: "jdl_option \<Rightarrow> string option"
  binaryOptionValidator :: "jdl_option \<Rightarrow> string option"

section \<open>Strings\<close>

text \<open>A template literal's \<^verbatim>\<open>'${s}'\<close>: the text between two apostrophes.\<close>

definition quoted :: "string \<Rightarrow> string" where
  "quoted s = CHR 0x27 # s @ [CHR 0x27]"

text \<open>
  \<^verbatim>\<open>toLowerCase\<close> on the letters A to Z, which sets bit 5 of the character code; every
  other byte stays as it is.
\<close>

fun toLowerCase_char :: "char \<Rightarrow> char" where
  "toLowerCase_char (Char b0 b1 b2 b3 b4 b5 b6 b7) =
     (let n = of_char (Char b0 b1 b2 b3 b4 b5 b6 b7) :: nat
      in if 65 \<le> n \<and> n \<le> 90 then Char b0 b1 b2 b3 b4 True b6 b7
         else Char b0 b1 b2 b3 b4 b5 b6 b7)"

definition toLowerCase :: "string \<Rightarrow> string" where
  "toLowerCase s = map toLowerCase_char s"

text \<open>\<^verbatim>\<open>names.join(' and ')\<close>\<close>

fun join_and :: "string list \<Rightarrow> string" where
  "join_and [] = ''''"
| "join_and [x] = x"
| "join_and (x # y # ys) = x @ '' and '' @ join_and (y # ys)"

section \<open>The validator\<close>

definition getTypeCheckingFunction ::
  "jhipster \<Rightarrow> string \<Rightarrow> application_settings \<Rightarrow> string \<Rightarrow> bool" where
  "getTypeCheckingFunction J entityName applicationSettings =
     (if applicationType applicationSettings = Some (GATEWAY J) then (\<lambda>_. True)
      else getIsType J (databaseType applicationSettings))"

definition isUserManagementEntity :: "string \<Rightarrow> bool" where
  "isUserManagementEntity entityName =
     (toLowerCase entityName = ''user'' \<or> toLowerCase entityName = ''authority'')"

text \<open>
  The list \<^verbatim>\<open>absentEntities\<close> that \<^verbatim>\<open>checkForAbsentEntities\<close> builds before it decides
  whether to throw.
\<close>

definition absentEntities :: "jdl_relationship \<Rightarrow> (string \<Rightarrow> bool) \<Rightarrow> bool \<Rightarrow> string list" where
  "absentEntities jdlRelationship doesEntityExist skippedUserManagementOption =
     (if \<not> doesEntityExist (rel_from jdlRelationship) then [rel_from jdlRelationship] else []) @
     (if \<not> doesEntityExist (rel_to jdlRelationship) \<and>
         (\<not> isUserManagementEntity (rel_to jdlRelationship) \<or> skippedUserManagementOption)
      then [rel_to jdlRelationship] else [])"

definition checkForAbsentEntities ::
  "jdl_relationship \<Rightarrow> (string \<Rightarrow> bool) \<Rightarrow> bool \<Rightarrow> outcome" where
  "checkForAbsentEntities jdlRelationship doesEntityExist skippedUserManagementOption =
     (let absent = absentEntities jdlRelationship doesEntityExist skippedUserManagementOption
      in throwIf (length absent \<noteq> 0)
           (''In the relationship between '' @ rel_from jdlRelationship @ '' and '' @
            rel_to jdlRelationship @ '', '' @ join_and absent @ '' '' @
            (if length absent = 1 then ''is'' else ''are'') @ '' not declared.''))"

definition checkForPaginationInAppWithCassandra ::
  "jhipster \<Rightarrow> jdl_option \<Rightarrow> application_settings \<Rightarrow> outcome" where
  "checkForPaginationInAppWithCassandra J jdlOption applicationSettings =
     throwIf (databaseType applicationSettings = Some (CASSANDRA J) \<and>
              option_name jdlOption = PAGINATION J)
       ''Pagination isn't allowed when the application uses Cassandra.''"

definition checkForValidationErrors ::
  "jhipster \<Rightarrow> validators \<Rightarrow> jdl_field \<Rightarrow> bool \<Rightarrow> outcome" where
  "checkForValidationErrors J V jdlField isAnEnum =
     forEach (\<lambda>jdlValidation. seq [
         validate (validationValidator V jdlValidation),
         throwIf (\<not> hasValidation J (field_type jdlField) (validation_name jdlValidation) isAnEnum)
           (''The validation '' @ quoted (validation_name jdlValidation) @
            '' isn't supported for the type '' @ quoted (field_type jdlField) @ ''.'')])
       (validations jdlField)"

text \<open>The body of the loop over \<^verbatim>\<open>Object.keys(jdlFields)\<close>, for one key.\<close>

definition checkForFieldErrors_each ::
  "jhipster \<Rightarrow> validators \<Rightarrow> jdl_object \<Rightarrow> application_settings \<Rightarrow> string \<Rightarrow>
   string \<times> jdl_field \<Rightarrow> outcome" where
  "checkForFieldErrors_each J V jdlObject applicationSettings entityName entry =
     (let fieldName = fst entry; jdlField = snd entry;
          filtering = (databaseType applicationSettings = Some (SQL J))
      in seq [
        validate (fieldValidator V jdlField),
        warnIf (isReservedFieldName J (field_name jdlField))
          (''The name '' @ quoted (field_name jdlField) @
           '' is a reserved keyword, so it will be prefixed with the value of 'jhiPrefix'.''),
        throwIf (filtering \<and> isReservedPaginationWords J (field_name jdlField))
          (''Field name '' @ quoted fieldName @ '' found in '' @ entityName @
           '' is a reserved keyword, as it is used by Spring for pagination in the URL.''),
        throwIf (\<not> hasEnum jdlObject (field_type jdlField) \<and>
                 \<not> getTypeCheckingFunction J entityName applicationSettings (field_type jdlField))
          (''The type '' @ quoted (field_type jdlField) @
           '' is an unknown field type for field '' @ quoted fieldName @
           '' of entity '' @ quoted entityName @ ''.''),
        checkForValidationErrors J V jdlField (hasEnum jdlObject (field_type jdlField))])"

definition checkForFieldErrors ::
  "jhipster \<Rightarrow> validators \<Rightarrow> jdl_object \<Rightarrow> application_settings \<Rightarrow> string \<Rightarrow>
   (string \<times> jdl_field) list \<Rightarrow> outcome" where
  "checkForFieldErrors J V jdlObject applicationSettings entityName jdlFields =
     forEach (checkForFieldErrors_each J V jdlObject applicationSettings entityName) jdlFields"

text \<open>The body of \<^verbatim>\<open>forEachEntity\<close>, for one entity.\<close>

definition checkForEntityErrors_each ::
  "jhipster \<Rightarrow> validators \<Rightarrow> jdl_object \<Rightarrow> application_settings \<Rightarrow> jdl_entity \<Rightarrow> outcome" where
  "checkForEntityErrors_each J V jdlObject applicationSettings jdlEntity =
     seq [
       validate (entityValidator V jdlEntity),
       warnIf (isReservedTableName J (tableName jdlEntity) (databaseType applicationSettings))
         (''The table name '' @ quoted (tableName jdlEntity) @
          '' is a reserved keyword, so it will be prefixed with the value of 'jhiPrefix'.''),
       checkForFieldErrors J V jdlObject applicationSettings (entity_name jdlEntity)
         (entity_fields jdlEntity)]"

text \<open>
  \<^verbatim>\<open>!applicationSettings.databaseType\<close> holds of a missing property and of the empty
  string.
\<close>

definition noDatabaseType :: "application_settings \<Rightarrow> bool" where
  "noDatabaseType applicationSettings =
     (case databaseType applicationSettings of None \<Rightarrow> True | Some d \<Rightarrow> d = [])"

definition checkForEntityErrors ::
  "jhipster \<Rightarrow> validators \<Rightarrow> jdl_object \<Rightarrow> application_settings \<Rightarrow> outcome" where
  "checkForEntityErrors J V jdlObject applicationSettings =
     (if getEntityQuantity jdlObject = 0 then ok
      else if noDatabaseType applicationSettings
      then throw ''Database type is required to validate entities.''
      else forEach (checkForEntityErrors_each J V jdlObject applicationSettings)
             (entities jdlObject))"

text \<open>
  \<^verbatim>\<open>applicationSettings.skippedUserManagement || getOptionsForName(SKIP_USER_MANAGEMENT)[0]\<close>:
  the flag when it is true, otherwise the first option of that name, an object, or
  \<^verbatim>\<open>undefined\<close> when there is none. The validator reads the value as a condition only.
\<close>

definition skippedUserManagementOf :: "jhipster \<Rightarrow> jdl_object \<Rightarrow> application_settings \<Rightarrow> bool" where
  "skippedUserManagementOf J jdlObject applicationSettings =
     (if skippedUserManagement applicationSettings = Some True then True
      else (case getOptionsForName jdlObject (SKIP_USER_MANAGEMENT J) of
              [] \<Rightarrow> False
            | opt # _ \<Rightarrow> True))"

text \<open>The body of \<^verbatim>\<open>forEachRelationship\<close>, for one relationship.\<close>

definition checkForRelationshipErrors_each ::
  "validators \<Rightarrow> jdl_object \<Rightarrow> bool \<Rightarrow> jdl_relationship \<Rightarrow> outcome" where
  "checkForRelationshipErrors_each V jdlObject skippedUserManagement' jdlRelationship =
     seq [
       validate (relationshipValidator V jdlRelationship skippedUserManagement'),
       checkForAbsentEntities jdlRelationship
         (\<lambda>entityName. getEntity jdlObject entityName \<noteq> None) skippedUserManagement']"

definition checkForRelationshipErrors ::
  "jhipster \<Rightarrow> validators \<Rightarrow> jdl_object \<Rightarrow> application_settings \<Rightarrow> outcome" where
  "checkForRelationshipErrors J V jdlObject applicationSettings =
     (if getRelationshipQuantity jdlObject = 0 then ok
      else forEach
             (checkForRelationshipErrors_each V jdlObject
                (skippedUserManagementOf J jdlObject applicationSettings))
             (relationships jdlObject))"

definition checkForEnumErrors :: "validators \<Rightarrow> jdl_object \<Rightarrow> outcome" where
  "checkForEnumErrors V jdlObject =
     (if getEnumQuantity jdlObject = 0 then ok
      else forEach (\<lambda>jdlEnum. validate (enumValidator V jdlEnum)) (enums jdlObject))"

definition checkDeploymentsErrors :: "validators \<Rightarrow> jdl_object \<Rightarrow> outcome" where
  "checkDeploymentsErrors V jdlObject =
     (if getDeploymentQuantity jdlObject = 0 then ok
      else forEach (\<lambda>deployment. validate (deploymentValidator V deployment))
             (deployments jdlObject))"

text \<open>The body of the loop over \<^verbatim>\<open>getOptions()\<close>, for one option.\<close>

definition checkForOptionErrors_each ::
  "jhipster \<Rightarrow> validators \<Rightarrow> application_settings \<Rightarrow> jdl_option \<Rightarrow> outcome" where
  "checkForOptionErrors_each J V applicationSettings opt =
     seq [
       (if getType opt = UNARY then validate (unaryOptionValidator V opt)
        else validate (binaryOptionValidator V opt)),
       checkForPaginationInAppWithCassandra J opt applicationSettings]"

definition checkForOptionErrors ::
  "jhipster \<Rightarrow> validators \<Rightarrow> jdl_object \<Rightarrow> application_settings \<Rightarrow> outcome" where
  "checkForOptionErrors J V jdlObject applicationSettings =
     (if getOptionQuantity jdlObject = 0 then ok
      else forEach (checkForOptionErrors_each J V applicationSettings) (options jdlObject))"

text \<open>The five phases that \<^verbatim>\<open>checkForErrors\<close> runs when no blueprint is used.\<close>

definition checkForErrors ::
  "jhipster \<Rightarrow> validators \<Rightarrow> jdl_object \<Rightarrow> application_settings \<Rightarrow> outcome" where
  "checkForErrors J V jdlObject applicationSettings =
     seq [
       checkForEntityErrors J V jdlObject applicationSettings,
       checkForRelationshipErrors J V jdlObject applicationSettings,
       checkForEnumErrors V jdlObject,
       checkDeploymentsErrors V jdlObject,
       checkForOptionErrors J V jdlObject applicationSettings]"

text \<open>
  \<^verbatim>\<open>applicationSettings.blueprints && applicationSettings.blueprints.length !== 0\<close>
\<close>

definition usesBlueprints :: "application_settings \<Rightarrow> bool" where
  "usesBlueprints applicationSettings =
     (case blueprints applicationSettings of None \<Rightarrow> False | Some bs \<Rightarrow> length bs \<noteq> 0)"

text \<open>
  \<^verbatim>\<open>createValidator\<close> throws when there is no JDL object (\<open>Inl\<close>), and otherwise returns
  the object whose only method is \<^verbatim>\<open>checkForErrors\<close> (\<open>Inr\<close>): here, the outcome of
  calling that method.
\<close>

definition createValidator ::
  "jhipster \<Rightarrow> validators \<Rightarrow> jdl_object option \<Rightarrow> application_settings \<Rightarrow> string + outcome" where
  "createValidator J V jdlObject applicationSettings =
     (case jdlObject of
        None \<Rightarrow> Inl ''A JDL object must be passed to check for business errors.''
      | Some obj \<Rightarrow>
          if usesBlueprints applicationSettings
          then Inr (warn ''Blueprints are being used, the JDL validation phase is skipped.'')
          else Inr (checkForErrors J V obj applicationSettings))"

section \<open>The shape validators, as far as they are described\<close>

text \<open>
  Modelled from the spec: the entity shape validator (\<^verbatim>\<open>entity-validator.js\<close> is not among
  the sources). Sections 4.2 and 8: an entity whose name is a reserved class name is
  rejected, with the message below. The table of reserved class names is a parameter.
\<close>

definition EntityValidator_validate :: "(string \<Rightarrow> bool) \<Rightarrow> jdl_entity \<Rightarrow> string option" where
  "EntityValidator_validate isReservedClassName jdlEntity =
     (if isReservedClassName (entity_name jdlEntity)
      then Some (''The name '' @ quoted (entity_name jdlEntity) @
                 '' is a reserved keyword and can not be used as an entity class name.'')
      else None)"

text \<open>
  Modelled from the spec: the relationship shape validator (\<^verbatim>\<open>relationship-validator.js\<close>
  is not among the sources), as far as the test-suite shows it: a relationship from the
  User entity is rejected unless user management is skipped.
\<close>

definition RelationshipValidator_validate :: "jdl_relationship \<Rightarrow> bool \<Rightarrow> string option" where
  "RelationshipValidator_validate jdlRelationship skippedUserManagementOption =
     (if toLowerCase (rel_from jdlRelationship) = ''user'' \<and> \<not> skippedUserManagementOption
      then Some (''Relationships from the User entity is not supported in the declaration between '' @
                 quoted (rel_from jdlRelationship) @ '' and '' @ quoted (rel_to jdlRelationship) @
                 ''. You can have this by using the 'skipUserManagement' option.'')
      else None)"

section \<open>Scenarios of the test-suite\<close>

text \<open>
  A sample of the absent tables and validators, with the entries the scenarios below need:
  the values of the scenarios are well-formed, so the remaining shape validators accept
  them.
\<close>

definition sample_jhipster :: jhipster where
  "sample_jhipster = \<lparr>
     SQL = ''sql'', CASSANDRA = ''cassandra'', GATEWAY = ''gateway'',
     SKIP_USER_MANAGEMENT = ''skipUserManagement'', PAGINATION = ''pagination'',
     isReservedFieldName = (\<lambda>n. toLowerCase n = ''catch''),
     isReservedTableName = (\<lambda>n db. toLowerCase n = ''continue''),
     isReservedPaginationWords = (\<lambda>n. toLowerCase n = ''page'' \<or> toLowerCase n = ''size'' \<or>
                                       toLowerCase n = ''sort''),
     getIsType = (\<lambda>db t. t = ''String'' \<or> t = ''Integer'' \<or> t = ''Long'' \<or> t = ''Boolean''),
     hasValidation = (\<lambda>t v isAnEnum. v = ''required'' \<or>
                        (t = ''String'' \<and> (v = ''minlength'' \<or> v = ''maxlength'' \<or> v = ''pattern'')) \<or>
                        ((t = ''Integer'' \<or> t = ''Long'') \<and> (v = ''min'' \<or> v = ''max''))) \<rparr>"

definition sample_validators :: validators where
  "sample_validators = \<lparr>
     entityValidator = EntityValidator_validate (\<lambda>n. toLowerCase n = ''continue''),
     fieldValidator = (\<lambda>_. None),
     validationValidator = (\<lambda>_. None),
     relationshipValidator = RelationshipValidator_validate,
     enumValidator = (\<lambda>_. None),
     deploymentValidator = (\<lambda>_. None),
     unaryOptionValidator = (\<lambda>_. None),
     binaryOptionValidator = (\<lambda>_. None) \<rparr>"

definition settings :: "string \<Rightarrow> string \<Rightarrow> bool \<Rightarrow> string list \<Rightarrow> application_settings" where
  "settings appType dbType skipUsers bps = \<lparr>
     baseName = Some ''jhipster'', applicationType = Some appType, databaseType = Some dbType,
     skippedUserManagement = Some skipUsers, blueprints = Some bps \<rparr>"

definition no_settings :: application_settings where
  "no_settings = \<lparr> baseName = None, applicationType = None, databaseType = None,
     skippedUserManagement = None, blueprints = None \<rparr>"

definition entity :: "string \<Rightarrow> (string \<times> jdl_field) list \<Rightarrow> jdl_entity" where
  "entity n fs = \<lparr> entity_name = n, tableName = n, entity_fields = fs \<rparr>"

definition field :: "string \<Rightarrow> string \<Rightarrow> string \<times> jdl_field" where
  "field n t = (n, \<lparr> field_name = n, field_type = t, validations = [] \<rparr>)"

definition one_to_one :: "string \<Rightarrow> string \<Rightarrow> jdl_relationship" where
  "one_to_one a b = \<lparr> rel_from = a, rel_to = b, rel_type = ''OneToOne'',
     injectedFieldInFrom = Some ''other'', injectedFieldInTo = None \<rparr>"

definition model ::
  "jdl_entity list \<Rightarrow> jdl_relationship list \<Rightarrow> jdl_option list \<Rightarrow> jdl_object" where
  "model es rs os = \<lparr> entities = es, relationships = rs, enums = [], deployments = [],
     options = os \<rparr>"

definition pagination_option :: jdl_option where
  "pagination_option = \<lparr> getType = BINARY, option_name = ''pagination'',
     option_value = Some ''pagination'', entityNames = [], excludedNames = [] \<rparr>"

definition skipUserManagement_option :: jdl_option where
  "skipUserManagement_option = \<lparr> getType = UNARY, option_name = ''skipUserManagement'',
     option_value = None, entityNames = [], excludedNames = [] \<rparr>"

section \<open>Sequencing\<close>

lemma thrown_ok [simp]: "thrown ok = None" and warned_ok [simp]: "warned ok = []"
  by (simp_all add: ok_def)

lemma thrown_throw [simp]: "thrown (throw m) = Some m" and warned_throw [simp]: "warned (throw m) = []"
  by (simp_all add: throw_def)

lemma thrown_warn [simp]: "thrown (warn m) = None" and warned_warn [simp]: "warned (warn m) = [m]"
  by (simp_all add: warn_def)

lemma thrown_warnIf [simp]: "thrown (warnIf b m) = None"
  by (simp add: warnIf_def)

lemma warned_warnIf [simp]: "warned (warnIf b m) = (if b then [m] else [])"
  by (simp add: warnIf_def)

lemma thrown_throwIf [simp]: "thrown (throwIf b m) = (if b then Some m else None)"
  by (simp add: throwIf_def)

lemma warned_throwIf [simp]: "warned (throwIf b m) = []"
  by (simp add: throwIf_def)

lemma thrown_validate [simp]: "thrown (validate r) = r"
  by (cases r) (simp_all add: validate_def)

lemma warned_validate [simp]: "warned (validate r) = []"
  by (cases r) (simp_all add: validate_def)

lemma thrown_andThen:
  "thrown (andThen a b) = (case thrown a of Some m \<Rightarrow> Some m | None \<Rightarrow> thrown b)"
  by (simp add: andThen_def split: option.splits)

lemma warned_andThen:
  "warned (andThen a b) = (case thrown a of Some m \<Rightarrow> warned a | None \<Rightarrow> warned a @ warned b)"
  by (simp add: andThen_def split: option.splits)

lemma andThen_ok_left [simp]: "andThen ok b = b"
  by (simp add: andThen_def ok_def)

lemma andThen_ok_right [simp]: "andThen a ok = a"
  by (cases a) (simp add: andThen_def ok_def split: option.splits)

lemma andThen_assoc: "andThen (andThen a b) c = andThen a (andThen b c)"
  by (cases a; cases b) (simp add: andThen_def split: option.splits)

lemma seq_append: "seq (as @ bs) = andThen (seq as) (seq bs)"
  by (induction as) (simp_all add: andThen_assoc)

lemma thrown_seq_None: "thrown (seq cs) = None \<longleftrightarrow> (\<forall>c\<in>set cs. thrown c = None)"
  by (induction cs) (auto simp: thrown_andThen split: option.splits)

lemma thrown_forEach_None: "thrown (forEach f xs) = None \<longleftrightarrow> (\<forall>x\<in>set xs. thrown (f x) = None)"
  by (simp add: forEach_def thrown_seq_None)

lemma thrown_seq_first:
  "\<forall>c\<in>set pre. thrown c = None \<Longrightarrow> thrown (seq (pre @ c # post)) = thrown (andThen c (seq post))"
  by (induction pre) (simp_all add: thrown_andThen)

lemma thrown_forEach_first:
  "\<forall>x\<in>set pre. thrown (f x) = None \<Longrightarrow> thrown (f x) = Some m \<Longrightarrow>
   thrown (forEach f (pre @ x # post)) = Some m"
  by (simp add: forEach_def thrown_seq_first thrown_andThen)

lemma warned_seq_None:
  "\<forall>c\<in>set cs. thrown c = None \<Longrightarrow> warned (seq cs) = concat (map warned cs)"
  by (induction cs) (simp_all add: warned_andThen)

lemma warned_seq_first:
  "\<forall>c\<in>set pre. thrown c = None \<Longrightarrow> thrown c = Some m \<Longrightarrow>
   warned (seq (pre @ c # post)) = concat (map warned pre) @ warned c"
  by (induction pre) (simp_all add: warned_andThen thrown_seq_first thrown_andThen)

lemma phases_skipped:
  "getEntityQuantity jdlObject = 0 \<Longrightarrow> checkForEntityErrors J V jdlObject s = ok"
  "getRelationshipQuantity jdlObject = 0 \<Longrightarrow> checkForRelationshipErrors J V jdlObject s = ok"
  "getEnumQuantity jdlObject = 0 \<Longrightarrow> checkForEnumErrors V jdlObject = ok"
  "getDeploymentQuantity jdlObject = 0 \<Longrightarrow> checkDeploymentsErrors V jdlObject = ok"
  "getOptionQuantity jdlObject = 0 \<Longrightarrow> checkForOptionErrors J V jdlObject s = ok"
  by (simp_all add: checkForEntityErrors_def checkForRelationshipErrors_def checkForEnumErrors_def
        checkDeploymentsErrors_def checkForOptionErrors_def)

section \<open>The phases of the pipeline\<close>

lemma thrown_forEach_skip:
  "\<forall>x\<in>set pre. thrown (f x) = None \<Longrightarrow> thrown (f x) = None \<Longrightarrow>
   thrown (forEach f (pre @ x # post)) = thrown (forEach f post)"
  by (simp add: forEach_def thrown_seq_first thrown_andThen)

lemma thrown_forEach_Some:
  "x \<in> set xs \<Longrightarrow> thrown (f x) \<noteq> None \<Longrightarrow> thrown (forEach f xs) \<noteq> None"
  by (auto simp: thrown_forEach_None)

lemma thrown_checkForErrors:
  "thrown (checkForErrors J V jdlObject s) =
     (case thrown (checkForEntityErrors J V jdlObject s) of Some m \<Rightarrow> Some m | None \<Rightarrow>
      (case thrown (checkForRelationshipErrors J V jdlObject s) of Some m \<Rightarrow> Some m | None \<Rightarrow>
      (case thrown (checkForEnumErrors V jdlObject) of Some m \<Rightarrow> Some m | None \<Rightarrow>
      (case thrown (checkDeploymentsErrors V jdlObject) of Some m \<Rightarrow> Some m | None \<Rightarrow>
      thrown (checkForOptionErrors J V jdlObject s)))))"
  by (simp add: checkForErrors_def thrown_andThen split: option.splits)

lemma createValidator_runs:
  "\<not> usesBlueprints s \<Longrightarrow>
   createValidator J V (Some jdlObject) s = Inr (checkForErrors J V jdlObject s)"
  by (simp add: createValidator_def)

lemma outcome_thrown: "thrown out = Some m \<Longrightarrow> \<exists>w. out = Outcome w (Some m)"
  by (cases out) simp

lemma thrown_relationships:
  "relationships jdlObject = pre @ r # post \<Longrightarrow>
   thrown (checkForRelationshipErrors J V jdlObject s) =
   thrown (forEach (checkForRelationshipErrors_each V jdlObject
             (skippedUserManagementOf J jdlObject s)) (pre @ r # post))"
  by (simp add: checkForRelationshipErrors_def getRelationshipQuantity_def)

lemma thrown_relationship_each:
  "thrown (checkForRelationshipErrors_each V jdlObject flag r) =
     (case relationshipValidator V r flag of Some m \<Rightarrow> Some m
      | None \<Rightarrow> thrown (checkForAbsentEntities r (\<lambda>n. getEntity jdlObject n \<noteq> None) flag))"
  by (simp add: checkForRelationshipErrors_each_def thrown_andThen split: option.splits)

lemma thrown_checkForAbsentEntities:
  "thrown (checkForAbsentEntities r ex flag) =
     (let fromAbsent = \<not> ex (rel_from r);
          toAbsent = (\<not> ex (rel_to r) \<and> (\<not> isUserManagementEntity (rel_to r) \<or> flag))
      in if fromAbsent \<and> toAbsent
         then Some (''In the relationship between '' @ rel_from r @ '' and '' @ rel_to r @ '', '' @
                    rel_from r @ '' and '' @ rel_to r @ '' are not declared.'')
         else if fromAbsent
         then Some (''In the relationship between '' @ rel_from r @ '' and '' @ rel_to r @ '', '' @
                    rel_from r @ '' is not declared.'')
         else if toAbsent
         then Some (''In the relationship between '' @ rel_from r @ '' and '' @ rel_to r @ '', '' @
                    rel_to r @ '' is not declared.'')
         else None)"
  by (simp add: checkForAbsentEntities_def absentEntities_def Let_def)

lemma relationship_first_failure:
  assumes "\<not> usesBlueprints s"
    and "thrown (checkForEntityErrors J V jdlObject s) = None"
    and "relationships jdlObject = pre @ r # post"
    and "\<forall>r'\<in>set pre. thrown (checkForRelationshipErrors_each V jdlObject
            (skippedUserManagementOf J jdlObject s) r') = None"
    and "thrown (checkForRelationshipErrors_each V jdlObject
            (skippedUserManagementOf J jdlObject s) r) = Some m"
  shows "\<exists>w. createValidator J V (Some jdlObject) s = Inr (Outcome w (Some m))"
proof -
  have "thrown (checkForRelationshipErrors J V jdlObject s) = Some m"
    using assms(3-5) by (simp add: thrown_relationships thrown_forEach_first)
  then have "thrown (checkForErrors J V jdlObject s) = Some m"
    using assms(2) by (simp add: thrown_checkForErrors)
  then show ?thesis
    using assms(1) by (simp add: createValidator_runs outcome_thrown)
qed

lemma relationship_failure:
  assumes "\<not> usesBlueprints s"
    and "r \<in> set (relationships jdlObject)"
    and "thrown (checkForRelationshipErrors_each V jdlObject
            (skippedUserManagementOf J jdlObject s) r) \<noteq> None"
  shows "\<exists>w m. createValidator J V (Some jdlObject) s = Inr (Outcome w (Some m))"
proof -
  have "relationships jdlObject \<noteq> []" using assms(2) by auto
  then have "thrown (checkForRelationshipErrors J V jdlObject s) =
        thrown (forEach (checkForRelationshipErrors_each V jdlObject
             (skippedUserManagementOf J jdlObject s)) (relationships jdlObject))"
    by (simp add: checkForRelationshipErrors_def getRelationshipQuantity_def)
  then have "thrown (checkForRelationshipErrors J V jdlObject s) \<noteq> None"
    using thrown_forEach_Some [OF assms(2), of "checkForRelationshipErrors_each V jdlObject
             (skippedUserManagementOf J jdlObject s)"] assms(3) by simp
  then have "thrown (checkForErrors J V jdlObject s) \<noteq> None"
    by (auto simp: thrown_checkForErrors split: option.splits)
  then obtain m where "thrown (checkForErrors J V jdlObject s) = Some m" by blast
  then show ?thesis
    using assms(1) outcome_thrown [of "checkForErrors J V jdlObject s" m]
    by (auto simp: createValidator_runs)
qed

lemma thrown_forEach_cong:
  "(\<And>x. x \<in> set xs \<Longrightarrow> thrown (f x) = thrown (g x)) \<Longrightarrow>
   thrown (forEach f xs) = thrown (forEach g xs)"
proof (induction xs)
  case Nil
  then show ?case by (simp add: forEach_def)
next
  case (Cons x xs)
  then have "thrown (forEach f xs) = thrown (forEach g xs)" and "thrown (f x) = thrown (g x)"
    by simp_all
  then show ?case by (simp add: forEach_def thrown_andThen split: option.splits)
qed

lemma thrown_entities:
  "\<not> noDatabaseType s \<Longrightarrow> entities jdlObject = pre @ e # post \<Longrightarrow>
   thrown (checkForEntityErrors J V jdlObject s) =
   thrown (forEach (checkForEntityErrors_each J V jdlObject s) (pre @ e # post))"
  by (simp add: checkForEntityErrors_def getEntityQuantity_def)

lemma thrown_entity_each:
  "thrown (checkForEntityErrors_each J V jdlObject s e) =
     (case entityValidator V e of Some m \<Rightarrow> Some m
      | None \<Rightarrow> thrown (checkForFieldErrors J V jdlObject s (entity_name e) (entity_fields e)))"
  by (simp add: checkForEntityErrors_each_def thrown_andThen split: option.splits)

lemma thrown_field_each:
  "thrown (checkForFieldErrors_each J V jdlObject s entityName (fieldName, jdlField)) =
     (case fieldValidator V jdlField of Some m \<Rightarrow> Some m
      | None \<Rightarrow>
        if databaseType s = Some (SQL J) \<and> isReservedPaginationWords J (field_name jdlField)
        then Some (''Field name '' @ quoted fieldName @ '' found in '' @ entityName @
           '' is a reserved keyword, as it is used by Spring for pagination in the URL.'')
        else if \<not> hasEnum jdlObject (field_type jdlField) \<and>
                \<not> getTypeCheckingFunction J entityName s (field_type jdlField)
        then Some (''The type '' @ quoted (field_type jdlField) @
           '' is an unknown field type for field '' @ quoted fieldName @
           '' of entity '' @ quoted entityName @ ''.'')
        else thrown (checkForValidationErrors J V jdlField (hasEnum jdlObject (field_type jdlField))))"
  by (simp add: checkForFieldErrors_each_def thrown_andThen Let_def split: option.splits)

lemma entity_first_failure:
  assumes "\<not> usesBlueprints s"
    and "\<not> noDatabaseType s"
    and "entities jdlObject = pre @ e # post"
    and "\<forall>e'\<in>set pre. thrown (checkForEntityErrors_each J V jdlObject s e') = None"
    and "thrown (checkForEntityErrors_each J V jdlObject s e) = Some m"
  shows "\<exists>w. createValidator J V (Some jdlObject) s = Inr (Outcome w (Some m))"
proof -
  have "thrown (checkForEntityErrors J V jdlObject s) = Some m"
    using assms(2-5) by (simp add: thrown_entities thrown_forEach_first)
  then have "thrown (checkForErrors J V jdlObject s) = Some m"
    by (simp add: thrown_checkForErrors)
  then show ?thesis
    using assms(1) by (simp add: createValidator_runs outcome_thrown)
qed

lemma entity_failure:
  assumes "\<not> usesBlueprints s"
    and "e \<in> set (entities jdlObject)"
    and "thrown (checkForEntityErrors_each J V jdlObject s e) \<noteq> None"
  shows "\<exists>w m. createValidator J V (Some jdlObject) s = Inr (Outcome w (Some m))"
proof -
  have "entities jdlObject \<noteq> []" using assms(2) by auto
  then have "thrown (checkForEntityErrors J V jdlObject s) =
        (if noDatabaseType s then Some ''Database type is required to validate entities.''
         else thrown (forEach (checkForEntityErrors_each J V jdlObject s) (entities jdlObject)))"
    by (simp add: checkForEntityErrors_def getEntityQuantity_def)
  moreover have "thrown (forEach (checkForEntityErrors_each J V jdlObject s) (entities jdlObject)) \<noteq> None"
    using thrown_forEach_Some [OF assms(2), of "checkForEntityErrors_each J V jdlObject s"] assms(3)
    by simp
  ultimately have "thrown (checkForEntityErrors J V jdlObject s) \<noteq> None"
    by (simp split: if_splits)
  then have "thrown (checkForErrors J V jdlObject s) \<noteq> None"
    by (auto simp: thrown_checkForErrors split: option.splits)
  then obtain m where "thrown (checkForErrors J V jdlObject s) = Some m" by blast
  then show ?thesis
    using assms(1) outcome_thrown [of "checkForErrors J V jdlObject s" m]
    by (auto simp: createValidator_runs)
qed

lemma field_first_failure:
  assumes "entityValidator V e = None"
    and "entity_fields e = fpre @ (k, f) # fpost"
    and "\<forall>x\<in>set fpre. thrown (checkForFieldErrors_each J V jdlObject s (entity_name e) x) = None"
    and "thrown (checkForFieldErrors_each J V jdlObject s (entity_name e) (k, f)) = Some m"
  shows "thrown (checkForEntityErrors_each J V jdlObject s e) = Some m"
  using assms by (simp add: thrown_entity_each checkForFieldErrors_def thrown_forEach_first)

lemma field_failure:
  assumes "(k, f) \<in> set (entity_fields e)"
    and "thrown (checkForFieldErrors_each J V jdlObject s (entity_name e) (k, f)) \<noteq> None"
  shows "thrown (checkForEntityErrors_each J V jdlObject s e) \<noteq> None"
  using thrown_forEach_Some [OF assms(1), of "checkForFieldErrors_each J V jdlObject s (entity_name e)"]
    assms(2)
  by (simp add: thrown_entity_each checkForFieldErrors_def split: option.splits)

lemma thrown_option_each:
  "thrown (checkForOptionErrors_each J V s opt) =
     (case (if getType opt = UNARY then unaryOptionValidator V opt
            else binaryOptionValidator V opt) of
        Some m \<Rightarrow> Some m
      | None \<Rightarrow>
          if databaseType s = Some (CASSANDRA J) \<and> option_name opt = PAGINATION J
          then Some ''Pagination isn't allowed when the application uses Cassandra.''
          else None)"
  by (simp add: checkForOptionErrors_each_def checkForPaginationInAppWithCassandra_def
        thrown_andThen split: option.splits)

lemma option_first_failure:
  assumes "\<not> usesBlueprints s"
    and "thrown (checkForEntityErrors J V jdlObject s) = None"
    and "thrown (checkForRelationshipErrors J V jdlObject s) = None"
    and "thrown (checkForEnumErrors V jdlObject) = None"
    and "thrown (checkDeploymentsErrors V jdlObject) = None"
    and "options jdlObject = pre @ opt # post"
    and "\<forall>opt'\<in>set pre. thrown (checkForOptionErrors_each J V s opt') = None"
    and "thrown (checkForOptionErrors_each J V s opt) = Some m"
  shows "\<exists>w. createValidator J V (Some jdlObject) s = Inr (Outcome w (Some m))"
proof -
  have "thrown (checkForOptionErrors J V jdlObject s) = Some m"
    using assms(6-8)
    by (simp add: checkForOptionErrors_def getOptionQuantity_def thrown_forEach_first)
  then have "thrown (checkForErrors J V jdlObject s) = Some m"
    using assms(2-5) by (simp add: thrown_checkForErrors)
  then show ?thesis
    using assms(1) by (simp add: createValidator_runs outcome_thrown)
qed

lemma option_failure:
  assumes "\<not> usesBlueprints s"
    and "opt \<in> set (options jdlObject)"
    and "thrown (checkForOptionErrors_each J V s opt) \<noteq> None"
  shows "\<exists>w m. createValidator J V (Some jdlObject) s = Inr (Outcome w (Some m))"
proof -
  have "options jdlObject \<noteq> []" using assms(2) by auto
  then have "thrown (checkForOptionErrors J V jdlObject s) =
        thrown (forEach (checkForOptionErrors_each J V s) (options jdlObject))"
    by (simp add: checkForOptionErrors_def getOptionQuantity_def)
  then have "thrown (checkForOptionErrors J V jdlObject s) \<noteq> None"
    using thrown_forEach_Some [OF assms(2), of "checkForOptionErrors_each J V s"] assms(3) by simp
  then have "thrown (checkForErrors J V jdlObject s) \<noteq> None"
    by (auto simp: thrown_checkForErrors split: option.splits)
  then obtain m where "thrown (checkForErrors J V jdlObject s) = Some m" by blast
  then show ?thesis
    using assms(1) outcome_thrown [of "checkForErrors J V jdlObject s" m]
    by (auto simp: createValidator_runs)
qed

text \<open>The definitions that a concrete scenario unfolds.\<close>

lemmas model_defs = getEntityQuantity_def getRelationshipQuantity_def getEnumQuantity_def
  getDeploymentQuantity_def getOptionQuantity_def getEntity_def hasEnum_def getOptionsForName_def

lemmas outcome_defs = ok_def throw_def warn_def throwIf_def warnIf_def validate_def andThen_def
  forEach_def

lemmas validator_defs = createValidator_def usesBlueprints_def checkForErrors_def
  checkForEntityErrors_def noDatabaseType_def checkForEntityErrors_each_def
  checkForFieldErrors_def checkForFieldErrors_each_def checkForValidationErrors_def
  getTypeCheckingFunction_def checkForRelationshipErrors_def skippedUserManagementOf_def
  checkForRelationshipErrors_each_def checkForAbsentEntities_def absentEntities_def
  isUserManagementEntity_def toLowerCase_def quoted_def checkForEnumErrors_def
  checkDeploymentsErrors_def checkForOptionErrors_def checkForOptionErrors_each_def
  checkForPaginationInAppWithCassandra_def

lemmas scenario_defs = sample_jhipster_def sample_validators_def EntityValidator_validate_def
  RelationshipValidator_validate_def settings_def no_settings_def entity_def field_def
  one_to_one_def model_def pagination_option_def skipUserManagement_option_def

section \<open>Blueprints\<close>

text \<open>
  Claim C7. When the settings carry a non-empty list of blueprints, \<^verbatim>\<open>checkForErrors\<close>
  returns without throwing, whatever the model is, and the logger receives one warning
  and no other: \<^verbatim>\<open>Blueprints are being used, the JDL validation phase is skipped.\<close>
\<close>

theorem blueprints_skip_validation:
  "usesBlueprints applicationSettings \<Longrightarrow>
   createValidator J V (Some jdlObject) applicationSettings =
     Inr (Outcome [''Blueprints are being used, the JDL validation phase is skipped.''] None)"
  by (simp add: createValidator_def warn_def)

text \<open>
  The settings of the test-suite's blueprint scenario, on a model in which an entity name,
  a relationship and an option would each be rejected.
\<close>

theorem blueprints_skip_validation_witness:
  "usesBlueprints (settings ''monolith'' ''sql'' False
      [''generator-jhipster-nodejs'', ''generator-jhipster-dotnetcore'']) \<and>
   createValidator sample_jhipster sample_validators
      (Some (model [entity ''Continue'' []] [one_to_one ''A'' ''B''] [pagination_option]))
      (settings ''monolith'' ''sql'' False
         [''generator-jhipster-nodejs'', ''generator-jhipster-dotnetcore'']) =
     Inr (Outcome [''Blueprints are being used, the JDL validation phase is skipped.''] None)"
proof -
  have h: "usesBlueprints (settings ''monolith'' ''sql'' False
      [''generator-jhipster-nodejs'', ''generator-jhipster-dotnetcore''])"
    by (simp add: usesBlueprints_def settings_def)
  from h blueprints_skip_validation [OF h] show ?thesis by simp
qed

section \<open>The empty model\<close>

text \<open>
  Claim C8, as stated, says that on a model without entities, relationships, enumerations,
  deployments and options \<^verbatim>\<open>checkForErrors\<close> logs nothing for every settings object. With
  a blueprint in the settings the logger receives the blueprint warning.
\<close>

theorem empty_model_logs_with_blueprints:
  "getEntityQuantity (model [] [] []) = 0 \<and> getRelationshipQuantity (model [] [] []) = 0 \<and>
   getEnumQuantity (model [] [] []) = 0 \<and> getDeploymentQuantity (model [] [] []) = 0 \<and>
   getOptionQuantity (model [] [] []) = 0 \<and>
   createValidator sample_jhipster sample_validators (Some (model [] [] []))
      (settings ''monolith'' ''sql'' False [''generator-jhipster-nodejs'']) =
     Inr (Outcome [''Blueprints are being used, the JDL validation phase is skipped.''] None)"
  by (simp add: createValidator_def usesBlueprints_def settings_def warn_def model_def
        getEntityQuantity_def getRelationshipQuantity_def getEnumQuantity_def
        getDeploymentQuantity_def getOptionQuantity_def)

text \<open>
  Claim C8, amended. On such a model \<^verbatim>\<open>checkForErrors\<close> never throws, for every settings
  object, also one without a database type. It logs nothing, unless the settings carry a
  non-empty list of blueprints: then it logs the blueprint warning and nothing else. The
  \<^verbatim>\<open>checkForErrors\<close> of the five phases logs nothing and throws nothing for every settings
  object: each phase returns at once, so the check that a database type is present does
  not run.
\<close>

theorem empty_model_succeeds:
  assumes "getEntityQuantity jdlObject = 0" and "getRelationshipQuantity jdlObject = 0"
    and "getEnumQuantity jdlObject = 0" and "getDeploymentQuantity jdlObject = 0"
    and "getOptionQuantity jdlObject = 0"
  shows "createValidator J V (Some jdlObject) applicationSettings =
           Inr (if usesBlueprints applicationSettings
                then Outcome [''Blueprints are being used, the JDL validation phase is skipped.''] None
                else Outcome [] None) \<and>
         checkForErrors J V jdlObject applicationSettings = Outcome [] None \<and>
         checkForEntityErrors J V jdlObject applicationSettings = Outcome [] None \<and>
         checkForRelationshipErrors J V jdlObject applicationSettings = Outcome [] None \<and>
         checkForEnumErrors V jdlObject = Outcome [] None \<and>
         checkDeploymentsErrors V jdlObject = Outcome [] None \<and>
         checkForOptionErrors J V jdlObject applicationSettings = Outcome [] None"
  using assms
  by (simp add: createValidator_def checkForErrors_def phases_skipped warn_def) (simp add: ok_def)

theorem empty_model_succeeds_witness:
  "createValidator sample_jhipster sample_validators (Some (model [] [] [])) no_settings =
     Inr (Outcome [] None) \<and>
   checkForErrors sample_jhipster sample_validators (model [] [] []) no_settings =
     Outcome [] None \<and>
   checkForEntityErrors sample_jhipster sample_validators (model [] [] []) no_settings =
     Outcome [] None"
  using empty_model_succeeds [of "model [] [] []" sample_jhipster sample_validators no_settings]
  by (simp add: model_def getEntityQuantity_def getRelationshipQuantity_def getEnumQuantity_def
        getDeploymentQuantity_def getOptionQuantity_def usesBlueprints_def no_settings_def)

section \<open>Relationships and their endpoints\<close>

lemma skippedUserManagementOf_iff:
  "skippedUserManagementOf J jdlObject s \<longleftrightarrow>
     skippedUserManagement s = Some True \<or>
     (\<exists>opt\<in>set (options jdlObject). option_name opt = SKIP_USER_MANAGEMENT J)"
proof -
  have "(case filter P xs of [] \<Rightarrow> False | x # _ \<Rightarrow> True) \<longleftrightarrow> (\<exists>x\<in>set xs. P x)"
    for P :: "jdl_option \<Rightarrow> bool" and xs
  proof (cases "filter P xs")
    case Nil
    then show ?thesis by (simp add: filter_empty_conv)
  next
    case (Cons y ys)
    then have "filter P xs \<noteq> []" by simp
    then have "\<exists>x\<in>set xs. P x" by (simp add: filter_empty_conv)
    with Cons show ?thesis by simp
  qed
  then show ?thesis
    by (simp add: skippedUserManagementOf_def getOptionsForName_def)
qed

text \<open>
  Claim C10. In a model with at least one relationship, the flag that the relationship
  checks receive is true when the settings flag \<^verbatim>\<open>skippedUserManagement\<close> is true, and also
  when the model has an option named \<^verbatim>\<open>skipUserManagement\<close>, whatever the settings flag is:
  with such a unary option the relationships are checked exactly as under a true settings
  flag. What a true flag does to an undeclared endpoint is the subject of claims C1 and
  C3.
\<close>

theorem skipUserManagement_from_option:
  assumes "getRelationshipQuantity jdlObject \<noteq> 0"
  shows "checkForRelationshipErrors J V jdlObject s =
           forEach (checkForRelationshipErrors_each V jdlObject
                      (skippedUserManagement s = Some True \<or>
                       (\<exists>opt\<in>set (options jdlObject). option_name opt = SKIP_USER_MANAGEMENT J)))
             (relationships jdlObject) \<and>
         (\<forall>opt\<in>set (options jdlObject).
            option_name opt = SKIP_USER_MANAGEMENT J \<longrightarrow> getType opt = UNARY \<longrightarrow>
            skippedUserManagementOf J jdlObject s \<and>
            checkForRelationshipErrors J V jdlObject s =
              checkForRelationshipErrors J V jdlObject (s\<lparr>skippedUserManagement := Some True\<rparr>))"
proof -
  have a: "checkForRelationshipErrors J V jdlObject s' =
           forEach (checkForRelationshipErrors_each V jdlObject
                      (skippedUserManagementOf J jdlObject s')) (relationships jdlObject)" for s'
    using assms by (simp add: checkForRelationshipErrors_def)
  have b: "skippedUserManagementOf J jdlObject (s\<lparr>skippedUserManagement := Some True\<rparr>)"
    by (simp add: skippedUserManagementOf_def)
  have c: "skippedUserManagementOf J jdlObject s"
    if "opt \<in> set (options jdlObject)" and "option_name opt = SKIP_USER_MANAGEMENT J" for opt
    using that by (auto simp: skippedUserManagementOf_iff)
  have d: "checkForRelationshipErrors J V jdlObject s =
        checkForRelationshipErrors J V jdlObject (s\<lparr>skippedUserManagement := Some True\<rparr>)"
    if "skippedUserManagementOf J jdlObject s"
    using that b a [of s] a [of "s\<lparr>skippedUserManagement := Some True\<rparr>"] by simp
  have e: "checkForRelationshipErrors J V jdlObject s =
           forEach (checkForRelationshipErrors_each V jdlObject
                      (skippedUserManagement s = Some True \<or>
                       (\<exists>opt\<in>set (options jdlObject). option_name opt = SKIP_USER_MANAGEMENT J)))
             (relationships jdlObject)"
    using a [of s] by (simp add: skippedUserManagementOf_iff)
  show ?thesis
    using c d e by blast
qed

theorem skipUserManagement_from_option_witness:
  "getRelationshipQuantity
     (model [entity ''Source'' []] [one_to_one ''Source'' ''User''] [skipUserManagement_option]) \<noteq> 0 \<and>
   skippedUserManagement (settings ''monolith'' ''sql'' False []) = Some False \<and>
   skippedUserManagementOf sample_jhipster
     (model [entity ''Source'' []] [one_to_one ''Source'' ''User''] [skipUserManagement_option])
     (settings ''monolith'' ''sql'' False []) \<and>
   checkForRelationshipErrors sample_jhipster sample_validators
     (model [entity ''Source'' []] [one_to_one ''Source'' ''User''] [skipUserManagement_option])
     (settings ''monolith'' ''sql'' False []) =
   checkForRelationshipErrors sample_jhipster sample_validators
     (model [entity ''Source'' []] [one_to_one ''Source'' ''User''] [skipUserManagement_option])
     (settings ''monolith'' ''sql'' True []) \<and>
   checkForRelationshipErrors sample_jhipster sample_validators
     (model [entity ''Source'' []] [one_to_one ''Source'' ''User''] [skipUserManagement_option])
     (settings ''monolith'' ''sql'' True []) =
   Outcome [] (Some ''In the relationship between Source and User, User is not declared.'')"
proof -
  let ?m = "model [entity ''Source'' []] [one_to_one ''Source'' ''User''] [skipUserManagement_option]"
  let ?s = "settings ''monolith'' ''sql'' False []"
  have q: "getRelationshipQuantity ?m \<noteq> 0"
    by (simp add: getRelationshipQuantity_def model_def)
  have o1: "skipUserManagement_option \<in> set (options ?m)"
    by (simp add: model_def)
  have o2: "option_name skipUserManagement_option = SKIP_USER_MANAGEMENT sample_jhipster"
    by (simp add: skipUserManagement_option_def sample_jhipster_def)
  have o3: "getType skipUserManagement_option = UNARY"
    by (simp add: skipUserManagement_option_def)
  have u: "?s\<lparr>skippedUserManagement := Some True\<rparr> = settings ''monolith'' ''sql'' True []"
    by (simp add: settings_def)
  have "skippedUserManagementOf sample_jhipster ?m ?s \<and>
        checkForRelationshipErrors sample_jhipster sample_validators ?m ?s =
        checkForRelationshipErrors sample_jhipster sample_validators ?m
          (?s\<lparr>skippedUserManagement := Some True\<rparr>)"
    using skipUserManagement_from_option [OF q, of sample_jhipster sample_validators ?s] o1 o2 o3
    by blast
  moreover have "checkForRelationshipErrors sample_jhipster sample_validators ?m
          (settings ''monolith'' ''sql'' True []) =
        Outcome [] (Some ''In the relationship between Source and User, User is not declared.'')"
    by (simp add: model_defs outcome_defs validator_defs scenario_defs)
  moreover have "skippedUserManagement ?s = Some False"
    by (simp add: settings_def)
  ultimately show ?thesis
    using q by (simp add: u)
qed

text \<open>
  Claim C4, as stated, counts an undeclared endpoint as absent unless it names User or
  Authority while user management is skipped. The validator leaves out of the error an
  undeclared \<^verbatim>\<open>to\<close> endpoint that names User or Authority while user management is not
  skipped: with both endpoints undeclared the error then names \<^verbatim>\<open>from\<close> only, with \<^verbatim>\<open>is\<close>, and
  with a declared \<^verbatim>\<open>from\<close> there is no error.
\<close>

theorem undeclared_User_destination_is_not_named:
  "getEntity (model [entity ''Source'' []] [one_to_one ''Missing'' ''User''] []) ''Missing'' = None \<and>
   getEntity (model [entity ''Source'' []] [one_to_one ''Missing'' ''User''] []) ''User'' = None \<and>
   createValidator sample_jhipster sample_validators
     (Some (model [entity ''Source'' []] [one_to_one ''Missing'' ''User''] []))
     (settings ''monolith'' ''sql'' False []) =
     Inr (Outcome [] (Some ''In the relationship between Missing and User, Missing is not declared.'')) \<and>
   checkForAbsentEntities (one_to_one ''Missing'' ''User'') (\<lambda>entityName. entityName = ''Source'') False =
     Outcome [] (Some ''In the relationship between Missing and User, Missing is not declared.'') \<and>
   getEntity (model [entity ''Source'' []] [one_to_one ''Source'' ''Authority''] []) ''Authority'' = None \<and>
   createValidator sample_jhipster sample_validators
     (Some (model [entity ''Source'' []] [one_to_one ''Source'' ''Authority''] []))
     (settings ''monolith'' ''sql'' False []) = Inr (Outcome [] None) \<and>
   checkForAbsentEntities (one_to_one ''Source'' ''Authority'') (\<lambda>entityName. entityName = ''Source'')
     False = Outcome [] None"
  by (simp add: model_defs outcome_defs validator_defs scenario_defs)

text \<open>
  Claim C4, amended. An undeclared \<^verbatim>\<open>from\<close> endpoint is always absent; an undeclared \<^verbatim>\<open>to\<close>
  endpoint is absent unless it names User or Authority while the flag of claim C10 is
  false. When no blueprint is used, a relationship with an absent endpoint makes
  \<^verbatim>\<open>checkForErrors\<close> throw, whatever else the model holds. When the relationship is the first
  violation (the entities pass, the relationships before it pass and its own shape is
  accepted), the error is
  \<^verbatim>\<open>In the relationship between <from> and <to>, <names> <verb> not declared.\<close> with the
  absent names joined by \<^verbatim>\<open> and \<close>, and \<^verbatim>\<open>is\<close> for one name, \<^verbatim>\<open>are\<close> for two.
\<close>

theorem absent_endpoints_error:
  assumes "\<not> usesBlueprints s"
    and "relationships jdlObject = pre @ r # post"
    and "getEntity jdlObject (rel_from r) = None \<or>
         (getEntity jdlObject (rel_to r) = None \<and>
          (\<not> isUserManagementEntity (rel_to r) \<or> skippedUserManagementOf J jdlObject s))"
  shows "(\<exists>w m. createValidator J V (Some jdlObject) s = Inr (Outcome w (Some m))) \<and>
         (thrown (checkForEntityErrors J V jdlObject s) = None \<longrightarrow>
          (\<forall>r'\<in>set pre. thrown (checkForRelationshipErrors_each V jdlObject
                             (skippedUserManagementOf J jdlObject s) r') = None) \<longrightarrow>
          relationshipValidator V r (skippedUserManagementOf J jdlObject s) = None \<longrightarrow>
          (\<exists>w. createValidator J V (Some jdlObject) s = Inr (Outcome w (Some
             (''In the relationship between '' @ rel_from r @ '' and '' @ rel_to r @ '', '' @
              (if getEntity jdlObject (rel_from r) \<noteq> None then rel_to r @ '' is''
               else if getEntity jdlObject (rel_to r) = None \<and>
                       (\<not> isUserManagementEntity (rel_to r) \<or>
                        skippedUserManagementOf J jdlObject s)
               then rel_from r @ '' and '' @ rel_to r @ '' are''
               else rel_from r @ '' is'') @
              '' not declared.'')))))"
proof -
  let ?flag = "skippedUserManagementOf J jdlObject s"
  let ?each = "checkForRelationshipErrors_each V jdlObject ?flag"
  have absent: "thrown (checkForAbsentEntities r (\<lambda>n. getEntity jdlObject n \<noteq> None) ?flag) \<noteq> None"
    using assms(3) by (auto simp: thrown_checkForAbsentEntities Let_def)
  then have "thrown (?each r) \<noteq> None"
    by (simp add: thrown_relationship_each split: option.splits)
  moreover have "r \<in> set (relationships jdlObject)"
    using assms(2) by simp
  ultimately have fails: "\<exists>w m. createValidator J V (Some jdlObject) s = Inr (Outcome w (Some m))"
    using relationship_failure [OF assms(1)] by blast
  have first: "\<exists>w. createValidator J V (Some jdlObject) s = Inr (Outcome w (Some
             (''In the relationship between '' @ rel_from r @ '' and '' @ rel_to r @ '', '' @
              (if getEntity jdlObject (rel_from r) \<noteq> None then rel_to r @ '' is''
               else if getEntity jdlObject (rel_to r) = None \<and>
                       (\<not> isUserManagementEntity (rel_to r) \<or> ?flag)
               then rel_from r @ '' and '' @ rel_to r @ '' are''
               else rel_from r @ '' is'') @
              '' not declared.'')))"
    if ents: "thrown (checkForEntityErrors J V jdlObject s) = None"
      and pre: "\<forall>r'\<in>set pre. thrown (?each r') = None"
      and shape: "relationshipValidator V r ?flag = None"
  proof (rule relationship_first_failure [OF assms(1) ents assms(2) pre])
    show "thrown (?each r) = Some
             (''In the relationship between '' @ rel_from r @ '' and '' @ rel_to r @ '', '' @
              (if getEntity jdlObject (rel_from r) \<noteq> None then rel_to r @ '' is''
               else if getEntity jdlObject (rel_to r) = None \<and>
                       (\<not> isUserManagementEntity (rel_to r) \<or> ?flag)
               then rel_from r @ '' and '' @ rel_to r @ '' are''
               else rel_from r @ '' is'') @
              '' not declared.'')"
      using assms(3) shape
      by (auto simp: thrown_relationship_each thrown_checkForAbsentEntities Let_def)
  qed
  from fails first show ?thesis by blast
qed

text \<open>
  The second of three relationships has both endpoints undeclared.
\<close>

theorem absent_endpoints_error_witness:
  "createValidator sample_jhipster sample_validators
     (Some (model [entity ''Valid'' []]
        [one_to_one ''Valid'' ''Valid'', one_to_one ''Source'' ''Other'', one_to_one ''Source'' ''Valid''] []))
     (settings ''monolith'' ''sql'' False []) =
   Inr (Outcome []
     (Some ''In the relationship between Source and Other, Source and Other are not declared.''))"
proof -
  let ?m = "model [entity ''Valid'' []]
        [one_to_one ''Valid'' ''Valid'', one_to_one ''Source'' ''Other'', one_to_one ''Source'' ''Valid''] []"
  let ?s = "settings ''monolith'' ''sql'' False []"
  have a: "\<not> usesBlueprints ?s"
    by (simp add: usesBlueprints_def settings_def)
  have b: "relationships ?m = [one_to_one ''Valid'' ''Valid''] @ one_to_one ''Source'' ''Other'' #
             [one_to_one ''Source'' ''Valid'']"
    by (simp add: model_def)
  have c: "getEntity ?m (rel_from (one_to_one ''Source'' ''Other'')) = None \<or>
         (getEntity ?m (rel_to (one_to_one ''Source'' ''Other'')) = None \<and>
          (\<not> isUserManagementEntity (rel_to (one_to_one ''Source'' ''Other'')) \<or>
           skippedUserManagementOf sample_jhipster ?m ?s))"
    by (simp add: model_defs scenario_defs)
  show ?thesis
    using absent_endpoints_error [OF a b c, of sample_validators]
    by (simp add: model_defs outcome_defs validator_defs scenario_defs)
qed

text \<open>
  Claim C1, as stated, says that an undeclared \<^verbatim>\<open>to\<close> endpoint User is an error when user
  management is not skipped, and accepted when it is skipped. The validator does the
  opposite, in the scenarios of the test-suite (\<^verbatim>\<open>when the skipUserManagement flag is not
  set: should not fail\<close>; \<^verbatim>\<open>when skipUserManagement flag is set: should fail\<close>).
\<close>

theorem undeclared_User_destination_is_checked_when_skipped:
  "createValidator sample_jhipster sample_validators
     (Some (model [entity ''Source'' []] [one_to_one ''Source'' ''User''] []))
     (settings ''monolith'' ''sql'' False []) = Inr (Outcome [] None) \<and>
   createValidator sample_jhipster sample_validators
     (Some (model [entity ''Source'' []] [one_to_one ''Source'' ''User''] []))
     (settings ''monolith'' ''sql'' True []) =
     Inr (Outcome [] (Some ''In the relationship between Source and User, User is not declared.'')) \<and>
   checkForAbsentEntities (one_to_one ''Source'' ''User'') (\<lambda>entityName. entityName = ''Source'') False =
     Outcome [] None \<and>
   checkForAbsentEntities (one_to_one ''Source'' ''User'') (\<lambda>entityName. entityName = ''Source'') True =
     Outcome [] (Some ''In the relationship between Source and User, User is not declared.'')"
  by (simp add: model_defs outcome_defs validator_defs scenario_defs)

text \<open>
  Claim C1, amended. Take a relationship that is reached (no blueprint is used, the entities
  and the relationships before it pass) and whose shape is accepted, with
  a \<^verbatim>\<open>to\<close> endpoint that names User or Authority and is not declared. When user management
  is not skipped, the endpoint is not an error: with a declared \<^verbatim>\<open>from\<close> the check goes on
  with the next relationship, and with an undeclared \<^verbatim>\<open>from\<close> the error names \<^verbatim>\<open>from\<close> only.
  When user management is skipped, \<^verbatim>\<open>checkForErrors\<close> throws, and the error names the \<^verbatim>\<open>to\<close>
  endpoint as not declared.
\<close>

theorem user_destination:
  assumes "\<not> usesBlueprints s"
    and "thrown (checkForEntityErrors J V jdlObject s) = None"
    and "relationships jdlObject = pre @ r # post"
    and "\<forall>r'\<in>set pre. thrown (checkForRelationshipErrors_each V jdlObject
            (skippedUserManagementOf J jdlObject s) r') = None"
    and "relationshipValidator V r (skippedUserManagementOf J jdlObject s) = None"
    and "getEntity jdlObject (rel_to r) = None"
    and "isUserManagementEntity (rel_to r)"
  shows "(\<not> skippedUserManagementOf J jdlObject s \<longrightarrow>
            (getEntity jdlObject (rel_from r) \<noteq> None \<longrightarrow>
               thrown (checkForRelationshipErrors J V jdlObject s) =
               thrown (forEach (checkForRelationshipErrors_each V jdlObject False) post)) \<and>
            (getEntity jdlObject (rel_from r) = None \<longrightarrow>
               (\<exists>w. createValidator J V (Some jdlObject) s = Inr (Outcome w (Some
                  (''In the relationship between '' @ rel_from r @ '' and '' @ rel_to r @ '', '' @
                   rel_from r @ '' is not declared.'')))))) \<and>
         (skippedUserManagementOf J jdlObject s \<longrightarrow>
            (\<exists>w. createValidator J V (Some jdlObject) s = Inr (Outcome w (Some
               (''In the relationship between '' @ rel_from r @ '' and '' @ rel_to r @ '', '' @
                (if getEntity jdlObject (rel_from r) \<noteq> None then rel_to r @ '' is''
                 else rel_from r @ '' and '' @ rel_to r @ '' are'') @ '' not declared.'')))))"
proof -
  let ?flag = "skippedUserManagementOf J jdlObject s"
  let ?each = "checkForRelationshipErrors_each V jdlObject ?flag"
  have passes: "thrown (checkForRelationshipErrors J V jdlObject s) =
               thrown (forEach (checkForRelationshipErrors_each V jdlObject False) post)"
    if "\<not> ?flag" and "getEntity jdlObject (rel_from r) \<noteq> None"
  proof -
    have "thrown (?each r) = None"
      using that assms(5,6,7) by (auto simp: thrown_relationship_each thrown_checkForAbsentEntities Let_def)
    then have "thrown (forEach ?each (pre @ r # post)) = thrown (forEach ?each post)"
      using assms(4) by (simp add: thrown_forEach_skip)
    then show ?thesis
      using that(1) by (simp add: thrown_relationships [OF assms(3)])
  qed
  have from_only: "\<exists>w. createValidator J V (Some jdlObject) s = Inr (Outcome w (Some
                  (''In the relationship between '' @ rel_from r @ '' and '' @ rel_to r @ '', '' @
                   rel_from r @ '' is not declared.'')))"
    if "\<not> ?flag" and "getEntity jdlObject (rel_from r) = None"
  proof (rule relationship_first_failure [OF assms(1-4)])
    show "thrown (?each r) = Some
                  (''In the relationship between '' @ rel_from r @ '' and '' @ rel_to r @ '', '' @
                   rel_from r @ '' is not declared.'')"
      using that assms(5,6,7) by (auto simp: thrown_relationship_each thrown_checkForAbsentEntities Let_def)
  qed
  have skipped: "\<exists>w. createValidator J V (Some jdlObject) s = Inr (Outcome w (Some
               (''In the relationship between '' @ rel_from r @ '' and '' @ rel_to r @ '', '' @
                (if getEntity jdlObject (rel_from r) \<noteq> None then rel_to r @ '' is''
                 else rel_from r @ '' and '' @ rel_to r @ '' are'') @ '' not declared.'')))"
    if "?flag"
  proof (rule relationship_first_failure [OF assms(1-4)])
    show "thrown (?each r) = Some
               (''In the relationship between '' @ rel_from r @ '' and '' @ rel_to r @ '', '' @
                (if getEntity jdlObject (rel_from r) \<noteq> None then rel_to r @ '' is''
                 else rel_from r @ '' and '' @ rel_to r @ '' are'') @ '' not declared.'')"
      using that assms(5,6,7) by (auto simp: thrown_relationship_each thrown_checkForAbsentEntities Let_def)
  qed
  from passes from_only skipped show ?thesis by blast
qed

theorem user_destination_witness:
  "thrown (checkForRelationshipErrors sample_jhipster sample_validators
     (model [entity ''Source'' []] [one_to_one ''Source'' ''User''] [])
     (settings ''monolith'' ''sql'' False [])) = None \<and>
   createValidator sample_jhipster sample_validators
     (Some (model [entity ''Source'' []] [one_to_one ''Source'' ''User''] []))
     (settings ''monolith'' ''sql'' True []) =
     Inr (Outcome [] (Some ''In the relationship between Source and User, User is not declared.''))"
proof -
  let ?m = "model [entity ''Source'' []] [one_to_one ''Source'' ''User''] []"
  let ?r = "one_to_one ''Source'' ''User''"
  have a: "\<not> usesBlueprints (settings ''monolith'' ''sql'' b [])" for b
    by (simp add: usesBlueprints_def settings_def)
  have b: "thrown (checkForEntityErrors sample_jhipster sample_validators ?m
             (settings ''monolith'' ''sql'' b [])) = None" for b
    by (simp add: model_defs outcome_defs validator_defs scenario_defs)
  have c: "relationships ?m = [] @ ?r # []"
    by (simp add: model_def)
  have d: "\<forall>r'\<in>set []. thrown (checkForRelationshipErrors_each sample_validators ?m
            (skippedUserManagementOf sample_jhipster ?m (settings ''monolith'' ''sql'' b [])) r') = None"
    for b by simp
  have e: "relationshipValidator sample_validators ?r
            (skippedUserManagementOf sample_jhipster ?m (settings ''monolith'' ''sql'' b [])) = None" for b
    by (simp add: model_defs validator_defs scenario_defs)
  have f: "getEntity ?m (rel_to ?r) = None"
    by (simp add: model_defs scenario_defs)
  have g: "isUserManagementEntity (rel_to ?r)"
    by (simp add: validator_defs scenario_defs)
  have h: "skippedUserManagementOf sample_jhipster ?m (settings ''monolith'' ''sql'' b []) = b" for b
    by (simp add: model_defs validator_defs scenario_defs)
  have i: "getEntity ?m (rel_from ?r) \<noteq> None"
    by (simp add: model_defs scenario_defs)
  show ?thesis
    using user_destination [OF a b c d e f g, of False] user_destination [OF a b c d e f g, of True]
      h i
    by (simp add: model_defs outcome_defs validator_defs scenario_defs)
qed




section \<open>Entities and their fields\<close>

text \<open>
  Claim C2. With the entity shape validator as the spec describes it and no blueprint in
  use, a model with an entity whose name is a reserved class name never passes:
  \<^verbatim>\<open>checkForErrors\<close> throws. When a
  database type is set and the entities before it pass, the error is
  \<^verbatim>\<open>The name '<name>' is a reserved keyword and can not be used as an entity class name.\<close>
\<close>

theorem reserved_entity_name:
  assumes "\<not> usesBlueprints s"
    and "entityValidator V = EntityValidator_validate isReservedClassName"
    and "entities jdlObject = pre @ e # post"
    and "isReservedClassName (entity_name e)"
  shows "(\<exists>w m. createValidator J V (Some jdlObject) s = Inr (Outcome w (Some m))) \<and>
         (\<not> noDatabaseType s \<longrightarrow>
          (\<forall>e'\<in>set pre. thrown (checkForEntityErrors_each J V jdlObject s e') = None) \<longrightarrow>
          (\<exists>w. createValidator J V (Some jdlObject) s = Inr (Outcome w (Some
             (''The name '' @ quoted (entity_name e) @
              '' is a reserved keyword and can not be used as an entity class name.'')))))"
proof -
  have each: "thrown (checkForEntityErrors_each J V jdlObject s e) = Some
             (''The name '' @ quoted (entity_name e) @
              '' is a reserved keyword and can not be used as an entity class name.'')"
    using assms(2,4) by (simp add: thrown_entity_each EntityValidator_validate_def)
  have "e \<in> set (entities jdlObject)"
    using assms(3) by simp
  then have fails: "\<exists>w m. createValidator J V (Some jdlObject) s = Inr (Outcome w (Some m))"
    using entity_failure [OF assms(1), of e jdlObject J V] each by simp
  have first: "\<exists>w. createValidator J V (Some jdlObject) s = Inr (Outcome w (Some
             (''The name '' @ quoted (entity_name e) @
              '' is a reserved keyword and can not be used as an entity class name.'')))"
    if "\<not> noDatabaseType s"
      and "\<forall>e'\<in>set pre. thrown (checkForEntityErrors_each J V jdlObject s e') = None"
    using entity_first_failure [OF assms(1) that(1) assms(3) that(2) each] .
  from fails first show ?thesis by blast
qed

text \<open>
  The entity \<^verbatim>\<open>Continue\<close> of the test-suite, after an entity that passes.
\<close>

theorem reserved_entity_name_witness:
  "createValidator sample_jhipster sample_validators
     (Some (model [entity ''Valid'' [], entity ''Continue'' [field ''validField'' ''WeirdType'']] [] []))
     (settings ''monolith'' ''sql'' False []) =
   Inr (Outcome [] (Some
     ''The name 'Continue' is a reserved keyword and can not be used as an entity class name.''))"
proof -
  let ?m = "model [entity ''Valid'' [], entity ''Continue'' [field ''validField'' ''WeirdType'']] [] []"
  let ?s = "settings ''monolith'' ''sql'' False []"
  have a: "\<not> usesBlueprints ?s"
    by (simp add: usesBlueprints_def settings_def)
  have b: "entityValidator sample_validators =
        EntityValidator_validate (\<lambda>n. toLowerCase n = ''continue'')"
    by (simp add: sample_validators_def)
  have c: "entities ?m = [entity ''Valid'' []] @
        entity ''Continue'' [field ''validField'' ''WeirdType''] # []"
    by (simp add: model_def)
  have d: "toLowerCase (entity_name (entity ''Continue'' [field ''validField'' ''WeirdType''])) =
        ''continue''"
    by (simp add: entity_def toLowerCase_def)
  show ?thesis
    using reserved_entity_name [OF a b c d, of sample_jhipster]
    by (simp add: model_defs outcome_defs validator_defs scenario_defs)
qed

text \<open>
  Claim C5. The type-checking predicate accepts every type name for a gateway, and is the
  predicate of the database type otherwise. A field's type is accepted iff it is a declared
  enumeration of the model or the predicate accepts it. For an accepted type the check of
  the field is the shape check, the warning for a reserved name, the pagination check and
  the check of the validations, with no type error, so the validation goes on with the
  next field. For a type that is not accepted \<^verbatim>\<open>checkForErrors\<close> throws, unless blueprints are
  used; when the field is the first violation (a database type is set, the entities and
  the fields before it pass, the shapes of its entity and of the field are accepted, and
  its name is no pagination word under SQL), the error is
  \<^verbatim>\<open>The type '<type>' is an unknown field type for field '<field>' of entity '<entity>'.\<close>
\<close>

theorem unknown_field_type:
  assumes "\<not> usesBlueprints s"
    and "entities jdlObject = pre @ e # post"
    and "entity_fields e = fpre @ (k, f) # fpost"
  shows "(getTypeCheckingFunction J (entity_name e) s (field_type f) \<longleftrightarrow>
            applicationType s = Some (GATEWAY J) \<or> getIsType J (databaseType s) (field_type f)) \<and>
         (hasEnum jdlObject (field_type f) \<or> applicationType s = Some (GATEWAY J) \<or>
          getIsType J (databaseType s) (field_type f) \<longrightarrow>
            checkForFieldErrors_each J V jdlObject s (entity_name e) (k, f) =
              seq [
                validate (fieldValidator V f),
                warnIf (isReservedFieldName J (field_name f))
                  (''The name '' @ quoted (field_name f) @
                   '' is a reserved keyword, so it will be prefixed with the value of 'jhiPrefix'.''),
                throwIf (databaseType s = Some (SQL J) \<and> isReservedPaginationWords J (field_name f))
                  (''Field name '' @ quoted k @ '' found in '' @ entity_name e @
                   '' is a reserved keyword, as it is used by Spring for pagination in the URL.''),
                checkForValidationErrors J V f (hasEnum jdlObject (field_type f))]) \<and>
         (fieldValidator V f = None \<longrightarrow>
          \<not> (databaseType s = Some (SQL J) \<and> isReservedPaginationWords J (field_name f)) \<longrightarrow>
            thrown (checkForFieldErrors_each J V jdlObject s (entity_name e) (k, f)) =
              (if hasEnum jdlObject (field_type f) \<or> applicationType s = Some (GATEWAY J) \<or>
                  getIsType J (databaseType s) (field_type f)
               then thrown (checkForValidationErrors J V f (hasEnum jdlObject (field_type f)))
               else Some (''The type '' @ quoted (field_type f) @
                      '' is an unknown field type for field '' @ quoted k @
                      '' of entity '' @ quoted (entity_name e) @ ''.''))) \<and>
         (hasEnum jdlObject (field_type f) \<or> applicationType s = Some (GATEWAY J) \<or>
          getIsType J (databaseType s) (field_type f) \<longrightarrow>
          entityValidator V e = None \<longrightarrow>
          (\<forall>x\<in>set fpre.
             thrown (checkForFieldErrors_each J V jdlObject s (entity_name e) x) = None) \<longrightarrow>
          fieldValidator V f = None \<longrightarrow>
          \<not> (databaseType s = Some (SQL J) \<and> isReservedPaginationWords J (field_name f)) \<longrightarrow>
          thrown (checkForValidationErrors J V f (hasEnum jdlObject (field_type f))) = None \<longrightarrow>
            thrown (checkForEntityErrors_each J V jdlObject s e) =
            thrown (checkForFieldErrors J V jdlObject s (entity_name e) fpost)) \<and>
         (\<not> (hasEnum jdlObject (field_type f) \<or> applicationType s = Some (GATEWAY J) \<or>
              getIsType J (databaseType s) (field_type f)) \<longrightarrow>
            (\<exists>w m. createValidator J V (Some jdlObject) s = Inr (Outcome w (Some m))) \<and>
            (\<not> noDatabaseType s \<longrightarrow>
             (\<forall>e'\<in>set pre. thrown (checkForEntityErrors_each J V jdlObject s e') = None) \<longrightarrow>
             entityValidator V e = None \<longrightarrow>
             (\<forall>x\<in>set fpre.
                thrown (checkForFieldErrors_each J V jdlObject s (entity_name e) x) = None) \<longrightarrow>
             fieldValidator V f = None \<longrightarrow>
             \<not> (databaseType s = Some (SQL J) \<and> isReservedPaginationWords J (field_name f)) \<longrightarrow>
             (\<exists>w. createValidator J V (Some jdlObject) s = Inr (Outcome w (Some
                (''The type '' @ quoted (field_type f) @ '' is an unknown field type for field '' @
                 quoted k @ '' of entity '' @ quoted (entity_name e) @ ''.''))))))"
proof -
  let ?accepted = "hasEnum jdlObject (field_type f) \<or> applicationType s = Some (GATEWAY J) \<or>
              getIsType J (databaseType s) (field_type f)"
  let ?each = "checkForFieldErrors_each J V jdlObject s (entity_name e)"
  let ?msg = "''The type '' @ quoted (field_type f) @ '' is an unknown field type for field '' @
                 quoted k @ '' of entity '' @ quoted (entity_name e) @ ''.''"
  let ?validations = "checkForValidationErrors J V f (hasEnum jdlObject (field_type f))"
  have predicate: "getTypeCheckingFunction J (entity_name e) s (field_type f) \<longleftrightarrow>
            applicationType s = Some (GATEWAY J) \<or> getIsType J (databaseType s) (field_type f)"
    by (simp add: getTypeCheckingFunction_def)
  have accepted: "?each (k, f) =
              seq [
                validate (fieldValidator V f),
                warnIf (isReservedFieldName J (field_name f))
                  (''The name '' @ quoted (field_name f) @
                   '' is a reserved keyword, so it will be prefixed with the value of 'jhiPrefix'.''),
                throwIf (databaseType s = Some (SQL J) \<and> isReservedPaginationWords J (field_name f))
                  (''Field name '' @ quoted k @ '' found in '' @ entity_name e @
                   '' is a reserved keyword, as it is used by Spring for pagination in the URL.''),
                ?validations]"
    if "?accepted"
  proof -
    have "throwIf (\<not> hasEnum jdlObject (field_type f) \<and>
                 \<not> getTypeCheckingFunction J (entity_name e) s (field_type f)) ?msg = ok"
      using that by (auto simp: predicate throwIf_def)
    then show ?thesis
      by (simp add: checkForFieldErrors_each_def Let_def)
  qed
  have thrown_each: "thrown (?each (k, f)) = (if ?accepted then thrown ?validations else Some ?msg)"
    if "fieldValidator V f = None"
      and "\<not> (databaseType s = Some (SQL J) \<and> isReservedPaginationWords J (field_name f))"
    using that by (auto simp: thrown_field_each predicate)
  have continues: "thrown (checkForEntityErrors_each J V jdlObject s e) =
            thrown (checkForFieldErrors J V jdlObject s (entity_name e) fpost)"
    if "?accepted" and ev: "entityValidator V e = None"
      and fpre: "\<forall>x\<in>set fpre. thrown (?each x) = None"
      and fv: "fieldValidator V f = None"
      and pg: "\<not> (databaseType s = Some (SQL J) \<and> isReservedPaginationWords J (field_name f))"
      and vs: "thrown ?validations = None"
  proof -
    have "thrown (?each (k, f)) = None"
      using thrown_each [OF fv pg] that(1) vs by simp
    then have "thrown (forEach ?each (fpre @ (k, f) # fpost)) = thrown (forEach ?each fpost)"
      using fpre by (simp add: thrown_forEach_skip)
    then show ?thesis
      using ev assms(3) by (simp add: thrown_entity_each checkForFieldErrors_def)
  qed
  have mem: "e \<in> set (entities jdlObject)" "(k, f) \<in> set (entity_fields e)"
    using assms(2,3) by simp_all
  have fails: "\<exists>w m. createValidator J V (Some jdlObject) s = Inr (Outcome w (Some m))"
    if "\<not> ?accepted"
  proof -
    have "thrown (?each (k, f)) \<noteq> None"
      using that by (auto simp: thrown_field_each predicate split: option.splits)
    then have "thrown (checkForEntityErrors_each J V jdlObject s e) \<noteq> None"
      using field_failure [OF mem(2)] by blast
    then show ?thesis
      using entity_failure [OF assms(1) mem(1)] by blast
  qed
  have first: "\<exists>w. createValidator J V (Some jdlObject) s = Inr (Outcome w (Some ?msg))"
    if "\<not> ?accepted" and db: "\<not> noDatabaseType s"
      and pre: "\<forall>e'\<in>set pre. thrown (checkForEntityErrors_each J V jdlObject s e') = None"
      and ev: "entityValidator V e = None"
      and fpre: "\<forall>x\<in>set fpre. thrown (?each x) = None"
      and fv: "fieldValidator V f = None"
      and pg: "\<not> (databaseType s = Some (SQL J) \<and> isReservedPaginationWords J (field_name f))"
  proof -
    have "thrown (?each (k, f)) = Some ?msg"
      using thrown_each [OF fv pg] that(1) by simp
    then have "thrown (checkForEntityErrors_each J V jdlObject s e) = Some ?msg"
      using field_first_failure [OF ev assms(3) fpre] by blast
    then show ?thesis
      using entity_first_failure [OF assms(1) db assms(2) pre] by blast
  qed
  show ?thesis
    using predicate accepted thrown_each continues fails first by blast
qed

text \<open>
  The two scenarios of the test-suite, \<^verbatim>\<open>WeirdType\<close> in a monolith and \<^verbatim>\<open>UNKNOWN-TYPE\<close> in a
  gateway; then, in a monolith, a type of the database and a type that is an enumeration
  of the model, and the same type without the enumeration.
\<close>

theorem unknown_field_type_witness:
  "createValidator sample_jhipster sample_validators
     (Some (model [entity ''Valid'' [field ''validField'' ''WeirdType'']] [] []))
     (settings ''monolith'' ''sql'' False []) =
   Inr (Outcome [] (Some
     ''The type 'WeirdType' is an unknown field type for field 'validField' of entity 'Valid'.'')) \<and>
   createValidator sample_jhipster sample_validators
     (Some (model [entity ''Valid'' [field ''validField'' ''UNKNOWN-TYPE'']] [] []))
     (settings ''gateway'' ''sql'' False []) = Inr (Outcome [] None) \<and>
   createValidator sample_jhipster sample_validators
     (Some (model [entity ''Valid'' [field ''validField'' ''String'']] [] []))
     (settings ''monolith'' ''sql'' False []) = Inr (Outcome [] None) \<and>
   createValidator sample_jhipster sample_validators
     (Some ((model [entity ''Valid'' [field ''validField'' ''Status'']] [] [])
        \<lparr>enums := [\<lparr>enum_name = ''Status'', enum_values = [''ACTIVE'', ''CLOSED'']\<rparr>]\<rparr>))
     (settings ''monolith'' ''sql'' False []) = Inr (Outcome [] None) \<and>
   createValidator sample_jhipster sample_validators
     (Some (model [entity ''Valid'' [field ''validField'' ''Status'']] [] []))
     (settings ''monolith'' ''sql'' False []) =
   Inr (Outcome [] (Some
     ''The type 'Status' is an unknown field type for field 'validField' of entity 'Valid'.''))"
proof -
  let ?s = "settings ''monolith'' ''sql'' False []"
  let ?g = "settings ''gateway'' ''sql'' False []"
  let ?weird = "entity ''Valid'' [field ''validField'' ''WeirdType'']"
  let ?unknown = "entity ''Valid'' [field ''validField'' ''UNKNOWN-TYPE'']"
  let ?status = "entity ''Valid'' [field ''validField'' ''Status'']"
  let ?withEnum = "(model [?status] [] [])
        \<lparr>enums := [\<lparr>enum_name = ''Status'', enum_values = [''ACTIVE'', ''CLOSED'']\<rparr>]\<rparr>"
  have a: "\<not> usesBlueprints ?s" "\<not> usesBlueprints ?g"
    by (simp_all add: usesBlueprints_def settings_def)
  have b: "entities (model [?weird] [] []) = [] @ ?weird # []"
    "entities (model [?unknown] [] []) = [] @ ?unknown # []"
    "entities ?withEnum = [] @ ?status # []"
    by (simp_all add: model_def)
  have c: "entity_fields ?weird = [] @ (''validField'',
             \<lparr>field_name = ''validField'', field_type = ''WeirdType'', validations = []\<rparr>) # []"
    "entity_fields ?unknown = [] @ (''validField'',
             \<lparr>field_name = ''validField'', field_type = ''UNKNOWN-TYPE'', validations = []\<rparr>) # []"
    "entity_fields ?status = [] @ (''validField'',
             \<lparr>field_name = ''validField'', field_type = ''Status'', validations = []\<rparr>) # []"
    by (simp_all add: entity_def field_def)
  show ?thesis
    using unknown_field_type [OF a(1) b(1) c(1), of sample_jhipster sample_validators]
      unknown_field_type [OF a(2) b(2) c(2), of sample_jhipster sample_validators]
      unknown_field_type [OF a(1) b(3) c(3), of sample_jhipster sample_validators]
    by (simp add: model_defs outcome_defs validator_defs scenario_defs)
qed

lemma checkForErrors_pagination_words:
  assumes "databaseType s \<noteq> Some (SQL J)"
  shows "checkForErrors J V jdlObject s =
         checkForErrors (J\<lparr>isReservedPaginationWords := \<lambda>_. False\<rparr>) V jdlObject s"
proof -
  let ?J = "J\<lparr>isReservedPaginationWords := \<lambda>_. False\<rparr>"
  have field: "checkForFieldErrors_each J V jdlObject s n = checkForFieldErrors_each ?J V jdlObject s n"
    for n
    using assms
    by (intro ext) (simp add: checkForFieldErrors_each_def getTypeCheckingFunction_def
          checkForValidationErrors_def Let_def)
  have each: "checkForEntityErrors_each J V jdlObject s = checkForEntityErrors_each ?J V jdlObject s"
    by (intro ext) (simp add: checkForEntityErrors_each_def checkForFieldErrors_def field)
  have ent: "checkForEntityErrors J V jdlObject s = checkForEntityErrors ?J V jdlObject s"
    by (simp add: checkForEntityErrors_def each)
  have rel: "checkForRelationshipErrors J V jdlObject s = checkForRelationshipErrors ?J V jdlObject s"
    by (simp add: checkForRelationshipErrors_def skippedUserManagementOf_def)
  have opt_each: "checkForOptionErrors_each J V s = checkForOptionErrors_each ?J V s"
    by (intro ext) (simp add: checkForOptionErrors_each_def checkForPaginationInAppWithCassandra_def)
  have opt: "checkForOptionErrors J V jdlObject s = checkForOptionErrors ?J V jdlObject s"
    by (simp add: checkForOptionErrors_def opt_each)
  show ?thesis
    by (simp add: checkForErrors_def ent rel opt)
qed

lemma field_each_reserved_name:
  assumes "fieldValidator V f = None" and "isReservedFieldName J (field_name f)"
  shows "checkForFieldErrors_each J V jdlObject s entityName (k, f) =
         andThen (warn (''The name '' @ quoted (field_name f) @
             '' is a reserved keyword, so it will be prefixed with the value of 'jhiPrefix'.''))
           (checkForFieldErrors_each (J\<lparr>isReservedFieldName := \<lambda>_. False\<rparr>) V jdlObject s
              entityName (k, f))"
  using assms
  by (simp add: checkForFieldErrors_each_def getTypeCheckingFunction_def
        checkForValidationErrors_def Let_def validate_def warnIf_def)

lemma thrown_validations_reserved:
  "thrown (checkForValidationErrors (J\<lparr>isReservedFieldName := g\<rparr>) V f b) =
   thrown (checkForValidationErrors J V f b)"
  by (simp add: checkForValidationErrors_def)

lemma thrown_checkForErrors_reserved_names:
  "thrown (checkForErrors J V jdlObject s) =
   thrown (checkForErrors (J\<lparr>isReservedFieldName := \<lambda>_. False\<rparr>) V jdlObject s)"
proof -
  let ?J = "J\<lparr>isReservedFieldName := \<lambda>_. False\<rparr>"
  have field: "thrown (checkForFieldErrors_each J V jdlObject s n x) =
        thrown (checkForFieldErrors_each ?J V jdlObject s n x)" for n x
    by (cases x) (auto simp: thrown_field_each getTypeCheckingFunction_def
          thrown_validations_reserved split: option.splits)
  have each: "thrown (checkForEntityErrors_each J V jdlObject s e) =
        thrown (checkForEntityErrors_each ?J V jdlObject s e)" for e
    using thrown_forEach_cong [of "entity_fields e"
        "checkForFieldErrors_each J V jdlObject s (entity_name e)"
        "checkForFieldErrors_each ?J V jdlObject s (entity_name e)"] field
    by (simp add: thrown_entity_each checkForFieldErrors_def split: option.splits)
  have ent: "thrown (checkForEntityErrors J V jdlObject s) =
        thrown (checkForEntityErrors ?J V jdlObject s)"
    using thrown_forEach_cong [of "entities jdlObject" "checkForEntityErrors_each J V jdlObject s"
        "checkForEntityErrors_each ?J V jdlObject s"] each
    by (simp add: checkForEntityErrors_def)
  have rel: "checkForRelationshipErrors J V jdlObject s = checkForRelationshipErrors ?J V jdlObject s"
    by (simp add: checkForRelationshipErrors_def skippedUserManagementOf_def)
  have opt_each: "checkForOptionErrors_each J V s = checkForOptionErrors_each ?J V s"
    by (intro ext) (simp add: checkForOptionErrors_each_def checkForPaginationInAppWithCassandra_def)
  have opt: "checkForOptionErrors J V jdlObject s = checkForOptionErrors ?J V jdlObject s"
    by (simp add: checkForOptionErrors_def opt_each)
  show ?thesis
    unfolding thrown_checkForErrors ent rel opt by (rule refl)
qed

text \<open>
  Claim C9. Under the SQL database type a field whose name is a pagination word makes
  \<^verbatim>\<open>checkForErrors\<close> throw, unless blueprints are used; when the field is the first violation the error is
  \<^verbatim>\<open>Field name '<field>' found in <entity> is a reserved keyword, as it is used by Spring for
  pagination in the URL.\<close> Under any other database type the table of pagination words has
  no effect on the validation. A reserved field name is advisory: a field whose shape is
  accepted logs \<^verbatim>\<open>The name '<name>' is a reserved keyword, so it will be prefixed with the
  value of 'jhiPrefix'.\<close> and is then checked as a field whose name is not reserved, and
  the table of reserved field names never changes whether and what \<^verbatim>\<open>checkForErrors\<close>
  throws.
\<close>

theorem field_name_keywords:
  assumes "\<not> usesBlueprints s"
    and "entities jdlObject = pre @ e # post"
    and "entity_fields e = fpre @ (k, f) # fpost"
  shows "(databaseType s = Some (SQL J) \<and> isReservedPaginationWords J (field_name f) \<longrightarrow>
            (\<exists>w m. createValidator J V (Some jdlObject) s = Inr (Outcome w (Some m))) \<and>
            (\<not> noDatabaseType s \<longrightarrow>
             (\<forall>e'\<in>set pre. thrown (checkForEntityErrors_each J V jdlObject s e') = None) \<longrightarrow>
             entityValidator V e = None \<longrightarrow>
             (\<forall>x\<in>set fpre.
                thrown (checkForFieldErrors_each J V jdlObject s (entity_name e) x) = None) \<longrightarrow>
             fieldValidator V f = None \<longrightarrow>
             (\<exists>w. createValidator J V (Some jdlObject) s = Inr (Outcome w (Some
                (''Field name '' @ quoted k @ '' found in '' @ entity_name e @
                 '' is a reserved keyword, as it is used by Spring for pagination in the URL.'')))))) \<and>
         (databaseType s \<noteq> Some (SQL J) \<longrightarrow>
            createValidator J V (Some jdlObject) s =
            createValidator (J\<lparr>isReservedPaginationWords := \<lambda>_. False\<rparr>) V (Some jdlObject) s) \<and>
         (isReservedFieldName J (field_name f) \<longrightarrow>
            (fieldValidator V f = None \<longrightarrow>
               checkForFieldErrors_each J V jdlObject s (entity_name e) (k, f) =
               andThen (warn (''The name '' @ quoted (field_name f) @
                   '' is a reserved keyword, so it will be prefixed with the value of 'jhiPrefix'.''))
                 (checkForFieldErrors_each (J\<lparr>isReservedFieldName := \<lambda>_. False\<rparr>) V jdlObject s
                    (entity_name e) (k, f))) \<and>
            thrown (checkForErrors J V jdlObject s) =
            thrown (checkForErrors (J\<lparr>isReservedFieldName := \<lambda>_. False\<rparr>) V jdlObject s))"
proof -
  let ?each = "checkForFieldErrors_each J V jdlObject s (entity_name e)"
  let ?msg = "''Field name '' @ quoted k @ '' found in '' @ entity_name e @
                 '' is a reserved keyword, as it is used by Spring for pagination in the URL.''"
  have mem: "e \<in> set (entities jdlObject)" "(k, f) \<in> set (entity_fields e)"
    using assms(2,3) by simp_all
  have fails: "\<exists>w m. createValidator J V (Some jdlObject) s = Inr (Outcome w (Some m))"
    if "databaseType s = Some (SQL J)" and "isReservedPaginationWords J (field_name f)"
  proof -
    have "thrown (?each (k, f)) \<noteq> None"
      using that by (simp add: thrown_field_each split: option.splits)
    then have "thrown (checkForEntityErrors_each J V jdlObject s e) \<noteq> None"
      using field_failure [OF mem(2)] by blast
    then show ?thesis
      using entity_failure [OF assms(1) mem(1)] by blast
  qed
  have first: "\<exists>w. createValidator J V (Some jdlObject) s = Inr (Outcome w (Some ?msg))"
    if sql: "databaseType s = Some (SQL J)" and word: "isReservedPaginationWords J (field_name f)"
      and db: "\<not> noDatabaseType s"
      and pre: "\<forall>e'\<in>set pre. thrown (checkForEntityErrors_each J V jdlObject s e') = None"
      and ev: "entityValidator V e = None"
      and fpre: "\<forall>x\<in>set fpre. thrown (?each x) = None"
      and fv: "fieldValidator V f = None"
  proof -
    have "thrown (?each (k, f)) = Some ?msg"
      using sql word fv by (simp add: thrown_field_each)
    then have "thrown (checkForEntityErrors_each J V jdlObject s e) = Some ?msg"
      using field_first_failure [OF ev assms(3) fpre] by blast
    then show ?thesis
      using entity_first_failure [OF assms(1) db assms(2) pre] by blast
  qed
  have other: "createValidator J V (Some jdlObject) s =
            createValidator (J\<lparr>isReservedPaginationWords := \<lambda>_. False\<rparr>) V (Some jdlObject) s"
    if "databaseType s \<noteq> Some (SQL J)"
    using that checkForErrors_pagination_words [of s J V jdlObject]
    by (simp add: createValidator_def)
  have advisory: "?each (k, f) =
               andThen (warn (''The name '' @ quoted (field_name f) @
                   '' is a reserved keyword, so it will be prefixed with the value of 'jhiPrefix'.''))
                 (checkForFieldErrors_each (J\<lparr>isReservedFieldName := \<lambda>_. False\<rparr>) V jdlObject s
                    (entity_name e) (k, f))"
    if "isReservedFieldName J (field_name f)" and "fieldValidator V f = None"
    using that by (intro field_each_reserved_name)
  from fails first other advisory thrown_checkForErrors_reserved_names [of J V jdlObject s]
  show ?thesis by blast
qed

text \<open>
  A field named \<^verbatim>\<open>catch\<close>, then a field named \<^verbatim>\<open>page\<close>: under SQL and under MongoDB.
\<close>

theorem field_name_keywords_witness:
  "createValidator sample_jhipster sample_validators
     (Some (model [entity ''Valid'' [field ''catch'' ''String'', field ''page'' ''String'']] [] []))
     (settings ''monolith'' ''sql'' False []) =
   Inr (Outcome
     [''The name 'catch' is a reserved keyword, so it will be prefixed with the value of 'jhiPrefix'.'']
     (Some ''Field name 'page' found in Valid is a reserved keyword, as it is used by Spring for pagination in the URL.'')) \<and>
   createValidator sample_jhipster sample_validators
     (Some (model [entity ''Valid'' [field ''catch'' ''String'', field ''page'' ''String'']] [] []))
     (settings ''monolith'' ''mongodb'' False []) =
   Inr (Outcome
     [''The name 'catch' is a reserved keyword, so it will be prefixed with the value of 'jhiPrefix'.'']
     None)"
proof -
  let ?e = "entity ''Valid'' [field ''catch'' ''String'', field ''page'' ''String'']"
  let ?m = "model [?e] [] []"
  let ?sql = "settings ''monolith'' ''sql'' False []"
  let ?mongo = "settings ''monolith'' ''mongodb'' False []"
  have a: "\<not> usesBlueprints ?sql" "\<not> usesBlueprints ?mongo"
    by (simp_all add: usesBlueprints_def settings_def)
  have b: "entities ?m = [] @ ?e # []"
    by (simp add: model_def)
  have c: "entity_fields ?e = [field ''catch'' ''String''] @
             (''page'', \<lparr>field_name = ''page'', field_type = ''String'', validations = []\<rparr>) # []"
    by (simp add: entity_def field_def)
  have d: "entity_fields ?e = [] @
             (''catch'', \<lparr>field_name = ''catch'', field_type = ''String'', validations = []\<rparr>) #
             [field ''page'' ''String'']"
    by (simp add: entity_def field_def)
  show ?thesis
    using field_name_keywords [OF a(1) b c, of sample_jhipster sample_validators]
      field_name_keywords [OF a(2) b d, of sample_jhipster sample_validators]
    by (simp add: model_defs outcome_defs validator_defs scenario_defs)
qed

section \<open>Options\<close>

text \<open>
  Claim C6. Under the Cassandra database type, and with no blueprint in use, a model with an
  option named Pagination never passes: \<^verbatim>\<open>checkForErrors\<close> throws. When the option is the first violation (the four
  phases before pass, the options before it pass and its own shape is accepted), the error
  is \<^verbatim>\<open>Pagination isn't allowed when the application uses Cassandra.\<close> Under any other
  database type the rule does not fire: the option is rejected only if its shape validator
  rejects it.
\<close>

theorem pagination_with_cassandra:
  assumes "\<not> usesBlueprints s"
    and "options jdlObject = pre @ opt # post"
    and "option_name opt = PAGINATION J"
  shows "(databaseType s = Some (CASSANDRA J) \<longrightarrow>
            (\<exists>w m. createValidator J V (Some jdlObject) s = Inr (Outcome w (Some m))) \<and>
            (thrown (checkForEntityErrors J V jdlObject s) = None \<longrightarrow>
             thrown (checkForRelationshipErrors J V jdlObject s) = None \<longrightarrow>
             thrown (checkForEnumErrors V jdlObject) = None \<longrightarrow>
             thrown (checkDeploymentsErrors V jdlObject) = None \<longrightarrow>
             (\<forall>opt'\<in>set pre. thrown (checkForOptionErrors_each J V s opt') = None) \<longrightarrow>
             (if getType opt = UNARY then unaryOptionValidator V opt
              else binaryOptionValidator V opt) = None \<longrightarrow>
             (\<exists>w. createValidator J V (Some jdlObject) s = Inr (Outcome w (Some
                ''Pagination isn't allowed when the application uses Cassandra.''))))) \<and>
         (databaseType s \<noteq> Some (CASSANDRA J) \<longrightarrow>
            checkForPaginationInAppWithCassandra J opt s = Outcome [] None \<and>
            thrown (checkForOptionErrors_each J V s opt) =
              (if getType opt = UNARY then unaryOptionValidator V opt
               else binaryOptionValidator V opt))"
proof -
  have mem: "opt \<in> set (options jdlObject)"
    using assms(2) by simp
  have fails: "\<exists>w m. createValidator J V (Some jdlObject) s = Inr (Outcome w (Some m))"
    if "databaseType s = Some (CASSANDRA J)"
  proof -
    have "thrown (checkForOptionErrors_each J V s opt) \<noteq> None"
      using that assms(3) by (simp add: thrown_option_each split: option.splits)
    then show ?thesis
      using option_failure [OF assms(1) mem] by blast
  qed
  have first: "\<exists>w. createValidator J V (Some jdlObject) s = Inr (Outcome w (Some
                ''Pagination isn't allowed when the application uses Cassandra.''))"
    if "databaseType s = Some (CASSANDRA J)"
      and p: "thrown (checkForEntityErrors J V jdlObject s) = None"
        "thrown (checkForRelationshipErrors J V jdlObject s) = None"
        "thrown (checkForEnumErrors V jdlObject) = None"
        "thrown (checkDeploymentsErrors V jdlObject) = None"
        "\<forall>opt'\<in>set pre. thrown (checkForOptionErrors_each J V s opt') = None"
      and shape: "(if getType opt = UNARY then unaryOptionValidator V opt
              else binaryOptionValidator V opt) = None"
  proof (rule option_first_failure [OF assms(1) p(1-4) assms(2) p(5)])
    show "thrown (checkForOptionErrors_each J V s opt) =
        Some ''Pagination isn't allowed when the application uses Cassandra.''"
      using that(1) assms(3) shape by (simp only: thrown_option_each) simp
  qed
  have other: "checkForPaginationInAppWithCassandra J opt s = Outcome [] None \<and>
            thrown (checkForOptionErrors_each J V s opt) =
              (if getType opt = UNARY then unaryOptionValidator V opt
               else binaryOptionValidator V opt)"
    if "databaseType s \<noteq> Some (CASSANDRA J)"
    using that
    by (simp add: thrown_option_each checkForPaginationInAppWithCassandra_def throwIf_def ok_def
          split: option.splits)
  from fails first other show ?thesis by blast
qed

theorem pagination_with_cassandra_witness:
  "createValidator sample_jhipster sample_validators
     (Some (model [] [] [pagination_option])) (settings ''monolith'' ''cassandra'' False []) =
   Inr (Outcome [] (Some ''Pagination isn't allowed when the application uses Cassandra.'')) \<and>
   createValidator sample_jhipster sample_validators
     (Some (model [] [] [pagination_option])) (settings ''monolith'' ''sql'' False []) =
   Inr (Outcome [] None)"
proof -
  let ?m = "model [] [] [pagination_option]"
  let ?c = "settings ''monolith'' ''cassandra'' False []"
  let ?s = "settings ''monolith'' ''sql'' False []"
  have a: "\<not> usesBlueprints ?c" "\<not> usesBlueprints ?s"
    by (simp_all add: usesBlueprints_def settings_def)
  have b: "options ?m = [] @ pagination_option # []"
    by (simp add: model_def)
  have c: "option_name pagination_option = PAGINATION sample_jhipster"
    by (simp add: pagination_option_def sample_jhipster_def)
  show ?thesis
    using pagination_with_cassandra [OF a(1) b c, of sample_validators]
      pagination_with_cassandra [OF a(2) b c, of sample_validators]
    by (simp add: model_defs outcome_defs validator_defs scenario_defs)
qed

end
